theory Spec2Isabelle
  imports Main
begin

section \<open>Python values used by the kernel\<close>

text \<open>
  The development embeds \<^verbatim>\<open>torch/_inductor/codegen/cutedsl/cutedsl_kernel.py\<close>:
  the class \<^verbatim>\<open>CuteDSLTemplateKernel\<close>, its region store
  (\<^verbatim>\<open>subgraph_bodies\<close>, \<^verbatim>\<open>set_subgraph_body\<close>,
  \<^verbatim>\<open>create_subgraph_body\<close>), its render hooks, and the operations
  \<^verbatim>\<open>store_output\<close>, \<^verbatim>\<open>def_kernel\<close>, \<^verbatim>\<open>render\<close> and
  \<^verbatim>\<open>call_kernel\<close>.

  Every Python exception the code can raise is a value of \<open>error\<close>. Both duplicate
  checks of the source are \<^verbatim>\<open>assert\<close> statements, so both raise
  \<^verbatim>\<open>AssertionError\<close>; they differ in the place and in the message, which the
  constructor carries.
\<close>

datatype error =
    AssertionError string
  | AttributeError string
  | TypeError string

text \<open>
  The message of \<^verbatim>\<open>assert body_name not in self.subgraph_bodies,
  f"Subgraph body '{body_name}' already exists"\<close> (the spec's DuplicateRegionError).
\<close>

definition DuplicateRegionError :: "string \<Rightarrow> error" where
  "DuplicateRegionError body_name =
     AssertionError (''Subgraph body '' @ [CHR 0x27] @ body_name @ [CHR 0x27] @ '' already exists'')"

text \<open>
  The two hook-registration assertions (the spec's DuplicateHookError):
  \<^verbatim>\<open>assert "<DEF_KERNEL>" not in self.render_hooks, "DEF_KERNEL hook already registered"\<close>
  and \<^verbatim>\<open>assert "<STORE_OUTPUT>" not in self.render_hooks\<close>, which has no message.
\<close>

definition DuplicateHookError_DEF_KERNEL :: error where
  "DuplicateHookError_DEF_KERNEL = AssertionError ''DEF_KERNEL hook already registered''"

definition DuplicateHookError_STORE_OUTPUT :: error where
  "DuplicateHookError_STORE_OUTPUT = AssertionError []"

text \<open>
  \<^verbatim>\<open>str.strip()\<close> removes leading and trailing whitespace. A \<open>char\<close> stands
  for a code point below 256, so text with higher code points is not represented. The
  whitespace of \<^verbatim>\<open>str.isspace\<close> in that range: tab, line feed, vertical tab, form
  feed, carriage return, the four separators 0x1C to 0x1F, space, next line (0x85) and
  no-break space (0xA0).
\<close>

definition isspace :: "char \<Rightarrow> bool" where
  "isspace c = (c \<in> set [CHR 0x09, CHR 0x0A, CHR 0x0B, CHR 0x0C, CHR 0x0D,
                          CHR 0x1C, CHR 0x1D, CHR 0x1E, CHR 0x1F, CHR 0x20,
                          CHR 0x85, CHR 0xA0])"

definition strip :: "string \<Rightarrow> string" where
  "strip s = rev (dropWhile isspace (rev (dropWhile isspace s)))"

text \<open>\<^verbatim>\<open>sep.join(xs)\<close>.\<close>

fun join :: "string \<Rightarrow> string list \<Rightarrow> string" where
  "join sep [] = []"
| "join sep [x] = x"
| "join sep (x # y # ys) = x @ sep @ join sep (y # ys)"

text \<open>The decimal digits of a number, for \<^verbatim>\<open>f'input_{i}'\<close> and \<^verbatim>\<open>f"arg{i}"\<close>.\<close>

fun str_of_nat :: "nat \<Rightarrow> string" where
  "str_of_nat n =
     (if n < 10 then [char_of (48 + n)]
      else str_of_nat (n div 10) @ [char_of (48 + n mod 10)])"

declare str_of_nat.simps [simp del]

text \<open>
  A dict assignment \<^verbatim>\<open>d[k] = v\<close> on an insertion-ordered dict: an existing key keeps
  its place and takes the new value, a new key goes to the end. Lookup is \<open>map_of\<close>.
\<close>

fun dict_set :: "'k \<Rightarrow> 'v \<Rightarrow> ('k \<times> 'v) list \<Rightarrow> ('k \<times> 'v) list" where
  "dict_set k v [] = [(k, v)]"
| "dict_set k v ((k', v') # d) = (if k' = k then (k, v) # d else (k', v') # dict_set k v d)"

section \<open>Code buffers\<close>

text \<open>
  Modelled from the spec: the class \<^verbatim>\<open>IndentedBuffer\<close> is imported from
  \<^verbatim>\<open>torch._inductor.codegen.common\<close> and is not part of the file. The spec calls it
  ``a mutable code buffer (ordered sequence of text lines, indentation-aware)''. The kernel
  never changes the indentation, so a buffer is the list of its lines, \<open>writeline\<close>
  appends a line, and \<open>getvalue\<close> is the text of the lines, each ended by a line feed.
\<close>

type_synonym IndentedBuffer = "string list"

definition writeline :: "string \<Rightarrow> IndentedBuffer \<Rightarrow> IndentedBuffer" where
  "writeline line buf = buf @ [line]"

definition getvalue :: "IndentedBuffer \<Rightarrow> string" where
  "getvalue buf = concat (map (\<lambda>line. line @ [CHR 0x0A]) buf)"

section \<open>The data model\<close>

text \<open>
  What the kernel reads of an input or output node (\<^verbatim>\<open>Buffer\<close> of
  \<^verbatim>\<open>torch._inductor.ir\<close>): the attribute \<^verbatim>\<open>name\<close>, read by
  \<^verbatim>\<open>getattr(input_node, 'name', ...)\<close>, and the result of the method
  \<^verbatim>\<open>get_name()\<close>, tested by \<^verbatim>\<open>hasattr(input_node, 'get_name')\<close>. \<open>None\<close>
  stands for an object without the attribute or the method.
\<close>

record Buffer =
  attr_name :: "string option"
  get_name :: "string option"

text \<open>
  Buffers are objects: a field that holds a buffer holds a reference, and two fields may
  hold the same buffer. References are addresses into the kernel's \<open>heap\<close>.
\<close>

type_synonym addr = nat

text \<open>The dataclass \<^verbatim>\<open>CuteDSLSubgraphInfo\<close>: exactly three fields.\<close>

record CuteDSLSubgraphInfo =
  sg_body :: addr
  sg_template_mask :: "string option"
  sg_template_out :: "string option"

text \<open>
  The two mappings of \<^verbatim>\<open>self.args\<close> that the file writes
  (\<^verbatim>\<open>KernelArgs\<close> of \<^verbatim>\<open>torch._inductor.codegen.common\<close>): buffer name to
  argument name, in insertion order.
\<close>

record KernelArgs =
  input_buffers :: "(string \<times> string) list"
  output_buffers :: "(string \<times> string) list"

text \<open>
  The two closures named \<^verbatim>\<open>hook\<close>, one defined in \<^verbatim>\<open>store_output\<close> and
  one in \<^verbatim>\<open>def_kernel\<close>. A closure captures \<^verbatim>\<open>self\<close> only, so it is a
  tag here and takes the kernel as it is when it is called.
\<close>

datatype hook = StoreOutputHook | DefKernelHook

text \<open>
  The attributes of \<^verbatim>\<open>CuteDSLTemplateKernel\<close> that the modelled methods read or
  write. \<open>heap\<close> holds every \<^verbatim>\<open>IndentedBuffer\<close> created so far; an address is an
  index into it.
\<close>

record CuteDSLTemplateKernel =
  kernel_name :: string
  input_nodes :: "Buffer list"
  output_node :: "Buffer option"
  subgraph_bodies :: "(string \<times> CuteDSLSubgraphInfo) list"
  body :: addr
  template_mask :: "string option"
  template_out :: "string option"
  template_indices :: "string list option"
  render_hooks :: "(string \<times> hook) list"
  named_input_nodes :: "(string \<times> Buffer) list"
  args :: KernelArgs
  heap :: "IndentedBuffer list"

text \<open>A call's result: the value or the exception, and the kernel as the call left it.\<close>

type_synonym 'a outcome = "(error + 'a) \<times> CuteDSLTemplateKernel"

section \<open>Construction\<close>

text \<open>
  The loop of \<^verbatim>\<open>__init__\<close>:
  \<^verbatim>\<open>for i, input_node in enumerate(input_nodes):
      node_name = getattr(input_node, 'name', f'input_{i}')
      self.named_input_nodes[node_name] = input_node\<close>
\<close>

fun init_named_input_nodes ::
  "nat \<Rightarrow> Buffer list \<Rightarrow> (string \<times> Buffer) list \<Rightarrow> (string \<times> Buffer) list" where
  "init_named_input_nodes i [] d = d"
| "init_named_input_nodes i (input_node # rest) d =
     init_named_input_nodes (Suc i) rest
       (dict_set (case attr_name input_node of
                    Some node_name \<Rightarrow> node_name
                  | None \<Rightarrow> ''input_'' @ str_of_nat i) input_node d)"

text \<open>
  \<^verbatim>\<open>__init__\<close>. The body is a new, empty buffer (address 0). Modelled from the spec:
  \<^verbatim>\<open>self.args\<close> is set by the constructor of the base class \<^verbatim>\<open>Kernel\<close>, which
  is not part of the file; the spec's Argument Table is ``populated incrementally as the
  template declares its signature'', so it starts empty.
\<close>

definition init :: "string \<Rightarrow> Buffer list \<Rightarrow> Buffer option \<Rightarrow> CuteDSLTemplateKernel" where
  "init name inputs out =
     \<lparr> kernel_name = name,
       input_nodes = inputs,
       output_node = out,
       subgraph_bodies = [],
       body = 0,
       template_mask = None,
       template_out = None,
       template_indices = None,
       render_hooks = [],
       named_input_nodes = init_named_input_nodes 0 inputs [],
       args = \<lparr> input_buffers = [], output_buffers = [] \<rparr>,
       heap = [[]] \<rparr>"

section \<open>The region store\<close>

text \<open>
  \<^verbatim>\<open>{key.name: getattr(self, key.name) for key in dataclasses.fields(CuteDSLSubgraphInfo)}\<close>:
  the kernel's three mirrored fields, as a \<^verbatim>\<open>CuteDSLSubgraphInfo\<close>.
\<close>

definition current_fields :: "CuteDSLTemplateKernel \<Rightarrow> CuteDSLSubgraphInfo" where
  "current_fields k =
     \<lparr> sg_body = body k, sg_template_mask = template_mask k, sg_template_out = template_out k \<rparr>"

text \<open>\<^verbatim>\<open>for key, value in ...items(): setattr(self, key, value)\<close>.\<close>

definition set_fields :: "CuteDSLSubgraphInfo \<Rightarrow> CuteDSLTemplateKernel \<Rightarrow> CuteDSLTemplateKernel" where
  "set_fields s k =
     k\<lparr> body := sg_body s, template_mask := sg_template_mask s, template_out := sg_template_out s \<rparr>"

text \<open>
  \<^verbatim>\<open>self.subgraph_bodies[body_name] = CuteDSLSubgraphInfo(body=IndentedBuffer(),
  template_mask=None, template_out=None)\<close>: a new empty buffer at the next free address.
\<close>

definition new_subgraph :: "string \<Rightarrow> CuteDSLTemplateKernel \<Rightarrow> CuteDSLTemplateKernel" where
  "new_subgraph body_name k =
     k\<lparr> heap := heap k @ [[]],
        subgraph_bodies :=
          dict_set body_name
            \<lparr> sg_body = length (heap k), sg_template_mask = None, sg_template_out = None \<rparr>
            (subgraph_bodies k) \<rparr>"

text \<open>
  \<^verbatim>\<open>set_subgraph_body\<close> up to its \<^verbatim>\<open>yield\<close>: remember the old fields, create
  the subgraph if it is missing, load its fields. The result is \<^verbatim>\<open>old_state\<close> and
  the kernel. (The lookup after the creation cannot miss; Python would raise KeyError.)
  The \<^verbatim>\<open>assert\<close> that opens the method, that the kernel has an attribute for every
  field of \<^verbatim>\<open>CuteDSLSubgraphInfo\<close>, always holds: \<^verbatim>\<open>__init__\<close> sets the three
  attributes and they are fields of the record.
\<close>

definition set_subgraph_body_enter ::
  "string \<Rightarrow> CuteDSLTemplateKernel \<Rightarrow> CuteDSLSubgraphInfo \<times> CuteDSLTemplateKernel" where
  "set_subgraph_body_enter body_name k =
     (let old_state = current_fields k;
          k1 = (if map_of (subgraph_bodies k) body_name = None then new_subgraph body_name k else k)
      in case map_of (subgraph_bodies k1) body_name of
           Some subgraph \<Rightarrow> (old_state, set_fields subgraph k1)
         | None \<Rightarrow> (old_state, k1))"

text \<open>
  The \<^verbatim>\<open>finally\<close> block of \<^verbatim>\<open>set_subgraph_body\<close>: save the current fields
  into the subgraph, then restore the old fields.
\<close>

definition set_subgraph_body_exit ::
  "string \<Rightarrow> CuteDSLSubgraphInfo \<Rightarrow> CuteDSLTemplateKernel \<Rightarrow> CuteDSLTemplateKernel" where
  "set_subgraph_body_exit body_name old_state k =
     set_fields old_state
       (k\<lparr> subgraph_bodies := dict_set body_name (current_fields k) (subgraph_bodies k) \<rparr>)"

text \<open>
  \<^verbatim>\<open>with self.set_subgraph_body(body_name): block\<close>. The block runs on the kernel
  after the entry; the \<^verbatim>\<open>finally\<close> block runs on whatever kernel the block left,
  whether it returned or raised, and the block's result or exception is passed on.
\<close>

definition set_subgraph_body ::
  "string \<Rightarrow> (CuteDSLTemplateKernel \<Rightarrow> 'a outcome) \<Rightarrow> CuteDSLTemplateKernel \<Rightarrow> 'a outcome" where
  "set_subgraph_body body_name block k =
     (let (old_state, k1) = set_subgraph_body_enter body_name k;
          (r, k2) = block k1
      in (r, set_subgraph_body_exit body_name old_state k2))"

text \<open>
  \<^verbatim>\<open>with self.create_subgraph_body(body_name): block\<close>: the assertion, the creation,
  then \<^verbatim>\<open>set_subgraph_body\<close>.
\<close>

definition create_subgraph_body ::
  "string \<Rightarrow> (CuteDSLTemplateKernel \<Rightarrow> 'a outcome) \<Rightarrow> CuteDSLTemplateKernel \<Rightarrow> 'a outcome" where
  "create_subgraph_body body_name block k =
     (if map_of (subgraph_bodies k) body_name \<noteq> None
      then (Inl (DuplicateRegionError body_name), k)
      else set_subgraph_body body_name block (new_subgraph body_name k))"

text \<open>
  Balanced, nested scopes with no mutation in them: a scope is a
  \<^verbatim>\<open>with self.set_subgraph_body(n):\<close> statement around a block of scopes, or a
  \<^verbatim>\<open>raise\<close>. A block runs its statements in order and stops at the first exception.
  A scope runs as \<open>set_subgraph_body\<close> does, written out for the recursion
  (\<open>run_scope_Region\<close>).
\<close>

datatype scope = Region string "scope list" | Fault error

fun run_scope :: "scope \<Rightarrow> CuteDSLTemplateKernel \<Rightarrow> unit outcome"
  and run_block :: "scope list \<Rightarrow> CuteDSLTemplateKernel \<Rightarrow> unit outcome" where
  "run_scope (Fault e) k = (Inl e, k)"
| "run_scope (Region body_name block) k =
     (let (old_state, k1) = set_subgraph_body_enter body_name k;
          (r, k2) = run_block block k1
      in (r, set_subgraph_body_exit body_name old_state k2))"
| "run_block [] k = (Inr (), k)"
| "run_block (s # rest) k =
     (case run_scope s k of
        (Inl e, k') \<Rightarrow> (Inl e, k')
      | (Inr u, k') \<Rightarrow> run_block rest k')"

section \<open>Template operations\<close>

text \<open>\<^verbatim>\<open>self.body.writeline(line)\<close>: the buffer that \<open>body\<close> refers to gets the line.\<close>

definition body_writeline :: "string \<Rightarrow> CuteDSLTemplateKernel \<Rightarrow> CuteDSLTemplateKernel" where
  "body_writeline line k = k\<lparr> heap := (heap k)[body k := writeline line (heap k ! body k)] \<rparr>"

text \<open>
  The block of \<^verbatim>\<open>store_output\<close> under \<^verbatim>\<open>with self.create_subgraph_body("<STORE_OUTPUT>")\<close>.
  \<^verbatim>\<open>list(indices) if indices else []\<close>: \<open>None\<close> and the empty list give the empty list.
  \<^verbatim>\<open>if mask:\<close> is false for \<open>None\<close> and for the empty string
  (the parameter \<^verbatim>\<open>mask\<close> is \<open>msk\<close> here).
\<close>

definition store_output_block ::
  "string list option \<Rightarrow> string \<Rightarrow> string option \<Rightarrow> CuteDSLTemplateKernel \<Rightarrow> unit outcome" where
  "store_output_block indices val msk k =
     (let k1 = k\<lparr> template_mask := msk \<rparr>;
          k2 = k1\<lparr> template_out := Some val \<rparr>;
          k3 = k2\<lparr> template_indices := Some (case indices of None \<Rightarrow> [] | Some xs \<Rightarrow> xs) \<rparr>;
          k4 = body_writeline (''# Store output: '' @ val) k3;
          k5 = (case msk of
                  None \<Rightarrow> k4
                | Some m \<Rightarrow> if m \<noteq> [] then body_writeline (''# Mask: '' @ m) k4 else k4)
      in (Inr (), k5))"

text \<open>
  \<^verbatim>\<open>store_output(indices, val, mask=None, indent_width=4)\<close>. After the
  \<^verbatim>\<open>with\<close> statement the hook is registered under \<^verbatim>\<open>"<STORE_OUTPUT>"\<close> and
  the token is returned. \<^verbatim>\<open>indent_width\<close> is not used by the source.
\<close>

definition store_output ::
  "string list option \<Rightarrow> string \<Rightarrow> string option \<Rightarrow> int \<Rightarrow> CuteDSLTemplateKernel \<Rightarrow> string outcome" where
  "store_output indices val msk indent_width k =
     (case create_subgraph_body ''<STORE_OUTPUT>'' (store_output_block indices val msk) k of
        (Inl e, k') \<Rightarrow> (Inl e, k')
      | (Inr u, k') \<Rightarrow>
          if map_of (render_hooks k') ''<STORE_OUTPUT>'' \<noteq> None
          then (Inl DuplicateHookError_STORE_OUTPUT, k')
          else (Inr ''<STORE_OUTPUT>'',
                k'\<lparr> render_hooks := dict_set ''<STORE_OUTPUT>'' StoreOutputHook (render_hooks k') \<rparr>))"

text \<open>
  The loop of \<^verbatim>\<open>def_kernel\<close> over \<^verbatim>\<open>zip(argnames, self.input_nodes)\<close>:
  \<^verbatim>\<open>self.named_input_nodes[name] = input_node
  self.args.input_buffers[input_node.get_name()] = name\<close>
  A node without \<^verbatim>\<open>get_name\<close> raises AttributeError after the first assignment.
\<close>

fun bind_inputs :: "(string \<times> Buffer) list \<Rightarrow> CuteDSLTemplateKernel \<Rightarrow> unit outcome" where
  "bind_inputs [] k = (Inr (), k)"
| "bind_inputs ((name, input_node) # rest) k =
     (let k1 = k\<lparr> named_input_nodes := dict_set name input_node (named_input_nodes k) \<rparr>
      in case get_name input_node of
           None \<Rightarrow> (Inl (AttributeError ''get_name''), k1)
         | Some buffer_name \<Rightarrow>
             bind_inputs rest
               (k1\<lparr> args := (args k1)\<lparr> input_buffers :=
                                dict_set buffer_name name (input_buffers (args k1)) \<rparr> \<rparr>))"

text \<open>
  \<^verbatim>\<open>if self.output_node: self.args.output_buffers[self.output_node.get_name()] = "output"\<close>.
\<close>

definition bind_output :: "CuteDSLTemplateKernel \<Rightarrow> unit outcome" where
  "bind_output k =
     (case output_node k of
        None \<Rightarrow> (Inr (), k)
      | Some out \<Rightarrow>
          (case get_name out of
             None \<Rightarrow> (Inl (AttributeError ''get_name''), k)
           | Some buffer_name \<Rightarrow>
               (Inr (), k\<lparr> args := (args k)\<lparr> output_buffers :=
                                    dict_set buffer_name ''output'' (output_buffers (args k)) \<rparr> \<rparr>)))"

text \<open>The block of \<^verbatim>\<open>def_kernel\<close> under \<^verbatim>\<open>with self.create_subgraph_body("<DEF_KERNEL>")\<close>.\<close>

definition def_kernel_block :: "string list \<Rightarrow> CuteDSLTemplateKernel \<Rightarrow> unit outcome" where
  "def_kernel_block argnames k =
     (if argnames \<noteq> []
      then (let args_str = join '', '' argnames;
                k1 = body_writeline (''# CuteDSL kernel function: '' @ kernel_name k) k;
                k2 = body_writeline (''# Arguments: '' @ args_str) k1;
                k3 = body_writeline (''def '' @ kernel_name k @ ''('' @ args_str @ ''):'') k2
            in (Inr (), k3))
      else (let k1 = body_writeline (''# CuteDSL kernel function: '' @ kernel_name k) k;
                k2 = body_writeline (''def '' @ kernel_name k @ ''():'') k1
            in (Inr (), k2)))"

text \<open>
  \<^verbatim>\<open>def_kernel(*argnames)\<close>: bind the inputs (only \<^verbatim>\<open>if len(argnames) > 0\<close>),
  bind the output, write the definition into the region \<^verbatim>\<open>"<DEF_KERNEL>"\<close>, register
  the hook, return the token.
\<close>

definition def_kernel :: "string list \<Rightarrow> CuteDSLTemplateKernel \<Rightarrow> string outcome" where
  "def_kernel argnames k =
     (case (if length argnames > 0 then bind_inputs (zip argnames (input_nodes k)) k
            else (Inr (), k)) of
        (Inl e, k1) \<Rightarrow> (Inl e, k1)
      | (Inr u, k1) \<Rightarrow>
          (case bind_output k1 of
             (Inl e, k2) \<Rightarrow> (Inl e, k2)
           | (Inr u, k2) \<Rightarrow>
               (case create_subgraph_body ''<DEF_KERNEL>'' (def_kernel_block argnames) k2 of
                  (Inl e, k3) \<Rightarrow> (Inl e, k3)
                | (Inr u, k3) \<Rightarrow>
                    if map_of (render_hooks k3) ''<DEF_KERNEL>'' \<noteq> None
                    then (Inl DuplicateHookError_DEF_KERNEL, k3)
                    else (Inr ''<DEF_KERNEL>'',
                          k3\<lparr> render_hooks :=
                                dict_set ''<DEF_KERNEL>'' DefKernelHook (render_hooks k3) \<rparr>))))"

section \<open>Render hooks\<close>

text \<open>
  Both closures have the same body:
  \<^verbatim>\<open>self.cse.invalidate(OrderedSet()); return self.body.getvalue().strip()\<close>.
  \<^verbatim>\<open>SimpleCuteDSLCSE.invalidate\<close> does nothing. \<^verbatim>\<open>self.body\<close> is read when the
  hook is called.
\<close>

fun call_hook :: "hook \<Rightarrow> CuteDSLTemplateKernel \<Rightarrow> string" where
  "call_hook StoreOutputHook k = strip (getvalue (heap k ! body k))"
| "call_hook DefKernelHook k = strip (getvalue (heap k ! body k))"

text \<open>\<^verbatim>\<open>self.render_hooks[token]()\<close>; \<open>None\<close> is Python's KeyError.\<close>

definition resolve_hook :: "string \<Rightarrow> CuteDSLTemplateKernel \<Rightarrow> string option" where
  "resolve_hook token k = map_option (\<lambda>h. call_hook h k) (map_of (render_hooks k) token)"

text \<open>The text a region's buffer holds, trimmed; \<open>None\<close> when there is no such region.\<close>

definition region_text :: "string \<Rightarrow> CuteDSLTemplateKernel \<Rightarrow> string option" where
  "region_text body_name k =
     map_option (\<lambda>sg. strip (getvalue (heap k ! sg_body sg))) (map_of (subgraph_bodies k) body_name)"

section \<open>Rendering\<close>

text \<open>
  The keyword arguments that \<^verbatim>\<open>render\<close> passes to \<^verbatim>\<open>template.render\<close>: the
  three identity fields, the two bound methods, and the caller's \<^verbatim>\<open>**kwargs\<close>.
\<close>

record 'v template_env =
  env_kernel_name :: string
  env_input_nodes :: "Buffer list"
  env_output_node :: "Buffer option"
  env_store_output ::
    "string list option \<Rightarrow> string \<Rightarrow> string option \<Rightarrow> int \<Rightarrow> CuteDSLTemplateKernel \<Rightarrow> string outcome"
  env_def_kernel :: "string list \<Rightarrow> CuteDSLTemplateKernel \<Rightarrow> string outcome"
  env_kwargs :: "(string \<times> 'v) list"

text \<open>
  The parameters of \<^verbatim>\<open>def render(self, template, **kwargs)\<close>. The method call
  gives \<^verbatim>\<open>self\<close> and the first argument gives \<^verbatim>\<open>template\<close>, so a caller's
  binding named \<^verbatim>\<open>self\<close> or \<^verbatim>\<open>template\<close>, as in
  \<^verbatim>\<open>k.render(t, template=0)\<close>, gives the parameter a second value: Python raises
  TypeError when it binds the arguments, before the body of \<^verbatim>\<open>render\<close> runs.
\<close>

definition render_parameters :: "string list" where
  "render_parameters = [''self'', ''template'']"

text \<open>
  The names \<^verbatim>\<open>render\<close> passes itself. Python refuses a call that gives one keyword
  twice (\<^verbatim>\<open>f(kernel_name=..., **{'kernel_name': ...})\<close> raises TypeError before
  \<^verbatim>\<open>f\<close> runs), so a caller's binding under one of these names makes the call fail.
\<close>

definition reserved_keywords :: "string list" where
  "reserved_keywords =
     [''kernel_name'', ''input_nodes'', ''output_node'', ''store_output'', ''def_kernel'']"

text \<open>
  \<^verbatim>\<open>render(template, **kwargs)\<close>. The template's \<^verbatim>\<open>render\<close> method is the
  external rendering service, a parameter here: it gets the bindings and the kernel (the
  callables it may invoke act on the kernel) and gives the text, or raises. The result is
  returned as it is. \<open>kwargs\<close> is the dict that \<^verbatim>\<open>**kwargs\<close> collects, in the
  caller's order. The first check is the binding of the call's arguments to
  \<^verbatim>\<open>render\<close>'s own parameters, the second the call of \<^verbatim>\<open>template.render\<close>;
  each raises for the first offending name.
\<close>

definition render ::
  "('v template_env \<Rightarrow> CuteDSLTemplateKernel \<Rightarrow> string outcome) \<Rightarrow> (string \<times> 'v) list \<Rightarrow>
   CuteDSLTemplateKernel \<Rightarrow> string outcome" where
  "render template kwargs k =
     (case find (\<lambda>key. key \<in> set render_parameters) (map fst kwargs) of
        Some key \<Rightarrow> (Inl (TypeError key), k)
      | None \<Rightarrow>
          (case find (\<lambda>key. key \<in> set reserved_keywords) (map fst kwargs) of
             Some key \<Rightarrow> (Inl (TypeError key), k)
           | None \<Rightarrow>
               template
                 \<lparr> env_kernel_name = kernel_name k,
                   env_input_nodes = input_nodes k,
                   env_output_node = output_node k,
                   env_store_output = store_output,
                   env_def_kernel = def_kernel,
                   env_kwargs = kwargs \<rparr> k))"

section \<open>The call site\<close>

text \<open>
  What \<^verbatim>\<open>wrapper.generate_kernel_call(name, call_args, triton=False, arg_types=arg_types)\<close>
  receives. The wrapper (\<^verbatim>\<open>V.graph.wrapper_code\<close>) is external; it is the list of the
  calls it was asked to emit.
\<close>

record kernel_call =
  kc_name :: string
  kc_call_args :: "string list"
  kc_triton :: bool
  kc_arg_types :: "string list"

text \<open>
  The fallback loop over \<^verbatim>\<open>enumerate(self.input_nodes)\<close>: the buffer's name when the
  node has \<^verbatim>\<open>get_name\<close>, else \<^verbatim>\<open>f"arg{i}"\<close>; the type is always
  \<^verbatim>\<open>"torch.Tensor"\<close>.
\<close>

fun fallback_inputs ::
  "nat \<Rightarrow> Buffer list \<Rightarrow> string list \<times> string list \<Rightarrow> string list \<times> string list" where
  "fallback_inputs i [] (cargs, types) = (cargs, types)"
| "fallback_inputs i (input_node # rest) (cargs, types) =
     fallback_inputs (Suc i) rest
       (cargs @ [case get_name input_node of
                   Some buffer_name \<Rightarrow> buffer_name
                 | None \<Rightarrow> ''arg'' @ str_of_nat i],
        types @ [''torch.Tensor''])"

text \<open>The fallback for the output node: its name, else \<^verbatim>\<open>"out"\<close>.\<close>

fun fallback_output ::
  "Buffer option \<Rightarrow> string list \<times> string list \<Rightarrow> string list \<times> string list" where
  "fallback_output None (cargs, types) = (cargs, types)"
| "fallback_output (Some out) (cargs, types) =
     (cargs @ [case get_name out of Some buffer_name \<Rightarrow> buffer_name | None \<Rightarrow> ''out''],
      types @ [''torch.Tensor''])"

text \<open>
  \<^verbatim>\<open>call_kernel(name, node=None)\<close>. Two things it uses are not part of the file and
  are parameters: \<open>args_truthy\<close>, the truth value of \<^verbatim>\<open>self.args\<close> in
  \<^verbatim>\<open>if hasattr(self, 'args') and self.args\<close>, and \<open>argdefs\<close>, the second and
  fourth component of \<^verbatim>\<open>self.args.python_argdefs()\<close> (the other two are dropped by
  \<^verbatim>\<open>_, call_args, _, arg_types = ...\<close>). \<^verbatim>\<open>node\<close> is not used by the source.
\<close>

definition call_kernel ::
  "(KernelArgs \<Rightarrow> bool) \<Rightarrow> (KernelArgs \<Rightarrow> string list \<times> string list) \<Rightarrow> string \<Rightarrow>
   CuteDSLTemplateKernel \<Rightarrow> kernel_call list \<Rightarrow> kernel_call list" where
  "call_kernel args_truthy argdefs name k wrapper =
     (let (cargs, types) =
            (if args_truthy (args k) then argdefs (args k)
             else fallback_output (output_node k) (fallback_inputs 0 (input_nodes k) ([], [])))
      in wrapper @ [\<lparr> kc_name = name, kc_call_args = cargs, kc_triton = False, kc_arg_types = types \<rparr>])"

text \<open>
  Modelled from the spec: the truth value of the argument table (class
  \<^verbatim>\<open>KernelArgs\<close>, not part of the file). The spec takes the first branch ``if the
  Argument Table has been populated'' and the fallback ``otherwise''.
\<close>

definition args_populated :: "KernelArgs \<Rightarrow> bool" where
  "args_populated a = (\<not> (input_buffers a = [] \<and> output_buffers a = []))"

text \<open>
  Modelled from the spec: the argument-binding service
  (\<^verbatim>\<open>KernelArgs.python_argdefs\<close>, not part of the file), which ``given an argument
  table, returns (param_defs, call_args, call_arg_names, call_arg_types)''. The spec's
  end-to-end property fixes what it returns: the buffer names of the input table, then those
  of the output table, in the order they were bound, each with the element type Tensor.
\<close>

definition python_argdefs :: "KernelArgs \<Rightarrow> string list \<times> string list" where
  "python_argdefs a =
     (map fst (input_buffers a) @ map fst (output_buffers a),
      map (\<lambda>b. ''torch.Tensor'') (input_buffers a @ output_buffers a))"

section \<open>An example template\<close>

text \<open>
  A template that calls \<^verbatim>\<open>def_kernel("x")\<close>, then
  \<^verbatim>\<open>store_output(None, "acc")\<close>, and gives the two returned tokens with the kernel
  name between them. It is used to run \<open>render\<close> on a concrete input.
\<close>

definition example_template :: "nat template_env \<Rightarrow> CuteDSLTemplateKernel \<Rightarrow> string outcome" where
  "example_template env k =
     (case env_def_kernel env [''x''] k of
        (Inl e, k1) \<Rightarrow> (Inl e, k1)
      | (Inr t1, k1) \<Rightarrow>
          (case env_store_output env None ''acc'' None 4 k1 of
             (Inl e, k2) \<Rightarrow> (Inl e, k2)
           | (Inr t2, k2) \<Rightarrow> (Inr (t1 @ ''; '' @ env_kernel_name env @ ''; '' @ t2), k2)))"

section \<open>Specification functions\<close>

text \<open>
  What binding a list of (argument name, buffer name) pairs, in order, does to the input
  table, and what naming a list of (argument name, node) pairs does to
  \<^verbatim>\<open>named_input_nodes\<close>. They state results; the code is \<open>bind_inputs\<close>.
\<close>

fun bind_names ::
  "(string \<times> string) list \<Rightarrow> (string \<times> string) list \<Rightarrow> (string \<times> string) list" where
  "bind_names [] d = d"
| "bind_names ((name, buffer_name) # rest) d = bind_names rest (dict_set buffer_name name d)"

fun name_nodes ::
  "(string \<times> Buffer) list \<Rightarrow> (string \<times> Buffer) list \<Rightarrow> (string \<times> Buffer) list" where
  "name_nodes [] d = d"
| "name_nodes ((name, input_node) # rest) d = name_nodes rest (dict_set name input_node d)"

section \<open>Lemmas about the region store\<close>

lemma map_of_dict_set: "map_of (dict_set k v d) = (map_of d)(k \<mapsto> v)"
  by (induction d) (auto simp: fun_eq_iff)

lemma run_scope_Region:
  "run_scope (Region body_name block) k = set_subgraph_body body_name (run_block block) k"
  by (simp add: set_subgraph_body_def)

lemma fst_set_subgraph_body_enter:
  "fst (set_subgraph_body_enter n k) = current_fields k"
  by (simp add: set_subgraph_body_enter_def Let_def split: option.splits)

lemma heap_set_subgraph_body_enter:
  "\<exists>xs. heap (snd (set_subgraph_body_enter n k)) = heap k @ xs"
  by (simp add: set_subgraph_body_enter_def Let_def set_fields_def new_subgraph_def
      split: option.splits)

lemma current_fields_exit:
  "current_fields (set_subgraph_body_exit n old_state k) = old_state"
  by (simp add: set_subgraph_body_exit_def set_fields_def current_fields_def)

lemma heap_set_subgraph_body_exit:
  "heap (set_subgraph_body_exit n old_state k) = heap k"
  by (simp add: set_subgraph_body_exit_def set_fields_def)

lemma current_fields_set_subgraph_body:
  "current_fields (snd (set_subgraph_body n block k)) = current_fields k"
proof -
  obtain old_state k1 where e: "set_subgraph_body_enter n k = (old_state, k1)"
    by (cases "set_subgraph_body_enter n k")
  obtain r k2 where b: "block k1 = (r, k2)"
    by (cases "block k1")
  from fst_set_subgraph_body_enter [of n k] e have "old_state = current_fields k" by simp
  then show ?thesis by (simp add: set_subgraph_body_def e b current_fields_exit)
qed

lemma heap_run:
  "\<exists>xs. heap (snd (run_scope s k)) = heap k @ xs"
  "\<exists>xs. heap (snd (run_block ss k)) = heap k @ xs"
proof (induction s k and ss k rule: run_scope_run_block.induct)
  case (1 e k)
  show ?case by simp
next
  case (2 body_name block k)
  obtain old_state k1 where e: "set_subgraph_body_enter body_name k = (old_state, k1)"
    by (cases "set_subgraph_body_enter body_name k")
  obtain r k2 where b: "run_block block k1 = (r, k2)"
    by (cases "run_block block k1")
  from heap_set_subgraph_body_enter [of body_name k] e
  obtain xs where xs: "heap k1 = heap k @ xs" by auto
  from "2.IH" [OF e [symmetric] refl] b obtain ys where ys: "heap k2 = heap k1 @ ys" by auto
  show ?case by (simp add: e b heap_set_subgraph_body_exit xs ys)
next
  case (3 k)
  show ?case by simp
next
  case (4 s rest k)
  obtain r k' where s: "run_scope s k = (r, k')" by (cases "run_scope s k")
  from "4.IH"(1) s obtain xs where xs: "heap k' = heap k @ xs" by auto
  show ?case
  proof (cases r)
    case (Inl e)
    then show ?thesis by (simp add: s xs)
  next
    case (Inr u)
    from "4.IH"(2) [OF s [symmetric] Inr] obtain ys
      where "heap (snd (run_block rest k')) = heap k' @ ys" by auto
    then show ?thesis by (simp add: s Inr xs)
  qed
qed

lemma new_subgraph_present:
  "map_of (subgraph_bodies (new_subgraph n k)) n
     = Some \<lparr> sg_body = length (heap k), sg_template_mask = None, sg_template_out = None \<rparr>"
  by (simp add: new_subgraph_def map_of_dict_set)

section \<open>Lemmas about binding and the kernel definition\<close>

lemma bind_inputs_zip:
  "map get_name (take (length argnames) nodes) = map Some bs \<Longrightarrow>
   bind_inputs (zip argnames nodes) k =
     (Inr (), k\<lparr> named_input_nodes := name_nodes (zip argnames nodes) (named_input_nodes k),
                 args := (args k)\<lparr> input_buffers :=
                           bind_names (zip argnames bs) (input_buffers (args k)) \<rparr> \<rparr>)"
proof (induction argnames arbitrary: nodes bs k)
  case Nil
  then show ?case by simp
next
  case (Cons a argnames)
  show ?case
  proof (cases nodes)
    case Nil
    with Cons.prems show ?thesis by simp
  next
    case nodes: (Cons n nodes')
    with Cons.prems obtain b bs' where bs: "bs = b # bs'" and b: "get_name n = Some b"
      and rest: "map get_name (take (length argnames) nodes') = map Some bs'"
      by (cases bs) auto
    show ?thesis
      by (simp add: nodes bs b Cons.IH [OF rest])
  qed
qed

lemma dict_set_twice: "dict_set k v (dict_set k v' d) = dict_set k v d"
  by (induction d) auto

lemma keys_dict_set: "fst ` set (dict_set k v d) = insert k (fst ` set d)"
  by (simp add: dom_map_of_conv_image_fst [symmetric] map_of_dict_set)

lemma keys_bind_names:
  "fst ` set (bind_names zs d) = fst ` set d \<union> snd ` set zs"
  by (induction zs d rule: bind_names.induct) (auto simp: keys_dict_set)

lemma in_dict_set:
  "(a, b) \<in> set (dict_set k v d) \<Longrightarrow> (a = k \<and> b = v) \<or> (a, b) \<in> set d"
  by (induction d) (auto split: if_splits)

lemma values_dict_set: "snd ` set (dict_set k v d) \<subseteq> insert v (snd ` set d)"
  by (force dest: in_dict_set)

lemma values_bind_names:
  "snd ` set (bind_names zs d) \<subseteq> snd ` set d \<union> fst ` set zs"
proof (induction zs d rule: bind_names.induct)
  case (1 d)
  show ?case by simp
next
  case (2 name buffer_name rest d)
  from "2.IH" values_dict_set [of buffer_name name d] show ?case by auto
qed

lemma map_of_bind_names_distinct:
  "distinct (map snd zs) \<Longrightarrow> (name, b) \<in> set zs \<Longrightarrow> map_of (bind_names zs d) b = Some name"
proof (induction zs d rule: bind_names.induct)
  case (1 d)
  then show ?case by simp
next
  case (2 name' buffer_name rest d)
  have keep: "b \<notin> snd ` set rest \<Longrightarrow> map_of (bind_names rest d') b = map_of d' b" for d'
  proof (induction rest d' rule: bind_names.induct)
    case (1 d)
    show ?case by simp
  next
    case (2 n c rest d)
    then show ?case by (auto simp: map_of_dict_set)
  qed
  show ?case
  proof (cases "(name, b) \<in> set rest")
    case True
    with 2 show ?thesis by simp
  next
    case False
    with "2.prems" have eq: "name' = name" "buffer_name = b" and "b \<notin> snd ` set rest" by auto
    then show ?thesis by (simp add: keep map_of_dict_set)
  qed
qed


lemma create_subgraph_body_new:
  fixes block :: "CuteDSLTemplateKernel \<Rightarrow> 'a outcome"
  assumes "map_of (subgraph_bodies k) n = None"
  shows "create_subgraph_body n block k =
     (let k1 = k\<lparr> heap := heap k @ [[]],
                   subgraph_bodies := dict_set n \<lparr> sg_body = length (heap k), sg_template_mask = None,
                                                 sg_template_out = None \<rparr> (subgraph_bodies k),
                   body := length (heap k), template_mask := None, template_out := None \<rparr>;
          (r, k2) = block k1
      in (r, k2\<lparr> subgraph_bodies := dict_set n (current_fields k2) (subgraph_bodies k2),
                 body := body k, template_mask := template_mask k, template_out := template_out k \<rparr>))"
  using assms
  by (simp add: create_subgraph_body_def set_subgraph_body_def set_subgraph_body_enter_def
      set_subgraph_body_exit_def new_subgraph_def map_of_dict_set set_fields_def current_fields_def
      Let_def split: prod.splits)

lemma def_kernel_ok:
  assumes names: "map get_name (take (length argnames) (input_nodes k)) = map Some bs"
    and out: "map_option get_name (output_node k) = map_option Some ob"
    and region: "map_of (subgraph_bodies k) ''<DEF_KERNEL>'' = None"
    and hook: "map_of (render_hooks k) ''<DEF_KERNEL>'' = None"
  shows "def_kernel argnames k =
    (Inr ''<DEF_KERNEL>'',
     k\<lparr> named_input_nodes := name_nodes (zip argnames (input_nodes k)) (named_input_nodes k),
        args := \<lparr> input_buffers = bind_names (zip argnames bs) (input_buffers (args k)),
                  output_buffers = (case ob of
                                      None \<Rightarrow> output_buffers (args k)
                                    | Some b \<Rightarrow> dict_set b ''output'' (output_buffers (args k))) \<rparr>,
        heap := heap k @
          [if argnames \<noteq> []
           then [''# CuteDSL kernel function: '' @ kernel_name k,
                 ''# Arguments: '' @ join '', '' argnames,
                 ''def '' @ kernel_name k @ ''('' @ join '', '' argnames @ ''):'']
           else [''# CuteDSL kernel function: '' @ kernel_name k,
                 ''def '' @ kernel_name k @ ''():'']],
        subgraph_bodies := dict_set ''<DEF_KERNEL>''
            \<lparr> sg_body = length (heap k), sg_template_mask = None, sg_template_out = None \<rparr>
            (subgraph_bodies k),
        render_hooks := dict_set ''<DEF_KERNEL>'' DefKernelHook (render_hooks k) \<rparr>)"
proof -
  define k1 where "k1 = k\<lparr> named_input_nodes := name_nodes (zip argnames (input_nodes k)) (named_input_nodes k),
        args := (args k)\<lparr> input_buffers := bind_names (zip argnames bs) (input_buffers (args k)) \<rparr> \<rparr>"
  have s1: "(if length argnames > 0 then bind_inputs (zip argnames (input_nodes k)) k else (Inr (), k))
            = (Inr (), k1)"
  proof (cases "argnames = []")
    case True
    then show ?thesis by (simp add: k1_def)
  next
    case False
    then show ?thesis by (simp add: k1_def bind_inputs_zip [OF names])
  qed
  define k2 where "k2 = k1\<lparr> args := (args k1)\<lparr> output_buffers :=
        (case ob of None \<Rightarrow> output_buffers (args k) | Some b \<Rightarrow> dict_set b ''output'' (output_buffers (args k))) \<rparr> \<rparr>"
  have s2: "bind_output k1 = (Inr (), k2)"
    using out by (cases "output_node k"; cases ob) (auto simp: bind_output_def k1_def k2_def)
  have r2: "map_of (subgraph_bodies k2) ''<DEF_KERNEL>'' = None"
    using region by (simp add: k2_def k1_def)
  have h2: "map_of (render_hooks k2) ''<DEF_KERNEL>'' = None"
    using hook by (simp add: k2_def k1_def)
  show ?thesis
    unfolding def_kernel_def s1
    using h2
    by (simp add: s2 create_subgraph_body_new [OF r2] def_kernel_block_def
        body_writeline_def writeline_def current_fields_def map_of_dict_set dict_set_twice Let_def)
      (simp add: k2_def k1_def)
qed


lemma zip_take_length: "zip xs (take (length xs) ys) = zip xs ys"
proof (induction xs arbitrary: ys)
  case Nil
  show ?case by simp
next
  case (Cons x xs)
  show ?case by (cases ys) (simp_all add: Cons.IH)
qed

lemma map_of_bind_names_nth:
  assumes "distinct bs" and "length bs \<le> length argnames" and "i < length bs"
  shows "map_of (bind_names (zip argnames bs) d) (bs ! i) = Some (argnames ! i)"
proof -
  have "map snd (zip argnames bs) = bs"
    using assms(2) by (simp add: map_snd_zip_take)
  with assms(1) have d: "distinct (map snd (zip argnames bs))" by simp
  have "(argnames ! i, bs ! i) \<in> set (zip argnames bs)"
    using assms(2,3) by (auto simp: set_zip)
  with d show ?thesis by (rule map_of_bind_names_distinct)
qed

section \<open>Lemmas about the two template operations\<close>

lemma store_output_new:
  assumes region: "map_of (subgraph_bodies k) ''<STORE_OUTPUT>'' = None"
  shows "store_output indices val msk w k =
    (let k' = k\<lparr> template_indices := Some (case indices of None \<Rightarrow> [] | Some xs \<Rightarrow> xs),
                  heap := heap k @
                    [case msk of
                       None \<Rightarrow> [''# Store output: '' @ val]
                     | Some m \<Rightarrow> if m \<noteq> [] then [''# Store output: '' @ val, ''# Mask: '' @ m]
                                else [''# Store output: '' @ val]],
                  subgraph_bodies := dict_set ''<STORE_OUTPUT>''
                    \<lparr> sg_body = length (heap k), sg_template_mask = msk, sg_template_out = Some val \<rparr>
                    (subgraph_bodies k) \<rparr>
     in if map_of (render_hooks k) ''<STORE_OUTPUT>'' \<noteq> None
        then (Inl DuplicateHookError_STORE_OUTPUT, k')
        else (Inr ''<STORE_OUTPUT>'',
              k'\<lparr> render_hooks := dict_set ''<STORE_OUTPUT>'' StoreOutputHook (render_hooks k) \<rparr>))"
  by (cases msk)
    (simp_all add: store_output_def create_subgraph_body_new [OF region] store_output_block_def
      body_writeline_def writeline_def current_fields_def map_of_dict_set dict_set_twice Let_def)

lemma store_output_existing:
  assumes "map_of (subgraph_bodies k) ''<STORE_OUTPUT>'' \<noteq> None"
  shows "store_output indices val msk w k = (Inl (DuplicateRegionError ''<STORE_OUTPUT>''), k)"
  using assms by (simp add: store_output_def create_subgraph_body_def)

lemma def_kernel_bound:
  assumes names: "map get_name (take (length argnames) (input_nodes k)) = map Some bs"
    and out: "map_option get_name (output_node k) = map_option Some ob"
  shows "\<exists>k2. subgraph_bodies k2 = subgraph_bodies k \<and> render_hooks k2 = render_hooks k \<and>
     def_kernel argnames k =
       (case create_subgraph_body ''<DEF_KERNEL>'' (def_kernel_block argnames) k2 of
          (Inl e, k3) \<Rightarrow> (Inl e, k3)
        | (Inr u, k3) \<Rightarrow>
            if map_of (render_hooks k3) ''<DEF_KERNEL>'' \<noteq> None
            then (Inl DuplicateHookError_DEF_KERNEL, k3)
            else (Inr ''<DEF_KERNEL>'',
                  k3\<lparr> render_hooks := dict_set ''<DEF_KERNEL>'' DefKernelHook (render_hooks k3) \<rparr>))"
proof -
  define k1 where "k1 = k\<lparr> named_input_nodes := name_nodes (zip argnames (input_nodes k)) (named_input_nodes k),
        args := (args k)\<lparr> input_buffers := bind_names (zip argnames bs) (input_buffers (args k)) \<rparr> \<rparr>"
  have s1: "(if length argnames > 0 then bind_inputs (zip argnames (input_nodes k)) k else (Inr (), k))
            = (Inr (), k1)"
  proof (cases "argnames = []")
    case True
    then show ?thesis by (simp add: k1_def)
  next
    case False
    then show ?thesis by (simp add: k1_def bind_inputs_zip [OF names])
  qed
  define k2 where "k2 = k1\<lparr> args := (args k1)\<lparr> output_buffers :=
        (case ob of None \<Rightarrow> output_buffers (args k) | Some b \<Rightarrow> dict_set b ''output'' (output_buffers (args k))) \<rparr> \<rparr>"
  have s2: "bind_output k1 = (Inr (), k2)"
    using out by (cases "output_node k"; cases ob) (auto simp: bind_output_def k1_def k2_def)
  have "subgraph_bodies k2 = subgraph_bodies k \<and> render_hooks k2 = render_hooks k"
    by (simp add: k2_def k1_def)
  moreover have "def_kernel argnames k =
       (case create_subgraph_body ''<DEF_KERNEL>'' (def_kernel_block argnames) k2 of
          (Inl e, k3) \<Rightarrow> (Inl e, k3)
        | (Inr u, k3) \<Rightarrow>
            if map_of (render_hooks k3) ''<DEF_KERNEL>'' \<noteq> None
            then (Inl DuplicateHookError_DEF_KERNEL, k3)
            else (Inr ''<DEF_KERNEL>'',
                  k3\<lparr> render_hooks := dict_set ''<DEF_KERNEL>'' DefKernelHook (render_hooks k3) \<rparr>))"
    unfolding def_kernel_def s1 by (simp add: s2)
  ultimately show ?thesis by blast
qed

lemma def_kernel_existing:
  assumes names: "map get_name (take (length argnames) (input_nodes k)) = map Some bs"
    and out: "map_option get_name (output_node k) = map_option Some ob"
    and region: "map_of (subgraph_bodies k) ''<DEF_KERNEL>'' \<noteq> None"
  shows "fst (def_kernel argnames k) = Inl (DuplicateRegionError ''<DEF_KERNEL>'')"
proof -
  from def_kernel_bound [OF names out] obtain k2
    where k2: "subgraph_bodies k2 = subgraph_bodies k"
      and d: "def_kernel argnames k =
       (case create_subgraph_body ''<DEF_KERNEL>'' (def_kernel_block argnames) k2 of
          (Inl e, k3) \<Rightarrow> (Inl e, k3)
        | (Inr u, k3) \<Rightarrow>
            if map_of (render_hooks k3) ''<DEF_KERNEL>'' \<noteq> None
            then (Inl DuplicateHookError_DEF_KERNEL, k3)
            else (Inr ''<DEF_KERNEL>'',
                  k3\<lparr> render_hooks := dict_set ''<DEF_KERNEL>'' DefKernelHook (render_hooks k3) \<rparr>))"
    by blast
  from region show ?thesis by (simp add: d create_subgraph_body_def k2)
qed

lemma def_kernel_hook_registered:
  assumes names: "map get_name (take (length argnames) (input_nodes k)) = map Some bs"
    and out: "map_option get_name (output_node k) = map_option Some ob"
    and region: "map_of (subgraph_bodies k) ''<DEF_KERNEL>'' = None"
    and hook: "map_of (render_hooks k) ''<DEF_KERNEL>'' \<noteq> None"
  shows "fst (def_kernel argnames k) = Inl DuplicateHookError_DEF_KERNEL"
proof -
  from def_kernel_bound [OF names out] obtain k2
    where k2: "subgraph_bodies k2 = subgraph_bodies k" "render_hooks k2 = render_hooks k"
      and d: "def_kernel argnames k =
       (case create_subgraph_body ''<DEF_KERNEL>'' (def_kernel_block argnames) k2 of
          (Inl e, k3) \<Rightarrow> (Inl e, k3)
        | (Inr u, k3) \<Rightarrow>
            if map_of (render_hooks k3) ''<DEF_KERNEL>'' \<noteq> None
            then (Inl DuplicateHookError_DEF_KERNEL, k3)
            else (Inr ''<DEF_KERNEL>'',
                  k3\<lparr> render_hooks := dict_set ''<DEF_KERNEL>'' DefKernelHook (render_hooks k3) \<rparr>))"
    by blast
  have r2: "map_of (subgraph_bodies k2) ''<DEF_KERNEL>'' = None"
    using region by (simp add: k2)
  from hook show ?thesis
    by (simp add: d create_subgraph_body_new [OF r2] def_kernel_block_def body_writeline_def
        Let_def k2)
qed

lemma take_names:
  assumes "map get_name nodes = map Some bs"
  shows "map get_name (take n nodes) = map Some (take n bs)"
  by (simp only: take_map [symmetric] assms)

lemma errors_differ:
  "DuplicateRegionError ''<DEF_KERNEL>'' \<noteq> DuplicateHookError_DEF_KERNEL"
  "DuplicateRegionError ''<STORE_OUTPUT>'' \<noteq> DuplicateHookError_STORE_OUTPUT"
  by (simp_all add: DuplicateRegionError_def DuplicateHookError_DEF_KERNEL_def
      DuplicateHookError_STORE_OUTPUT_def)

section \<open>Lemmas about hooks and the call site\<close>

lemma hook_reads_current_body:
  "map_of (render_hooks k) token = Some h \<Longrightarrow>
   resolve_hook token k = Some (strip (getvalue (heap k ! body k)))"
  by (cases h) (simp_all add: resolve_hook_def)

lemma fallback_inputs_eq:
  "fallback_inputs i nodes (cargs, types) =
     (cargs @ map (\<lambda>(j, n). case get_name n of Some b \<Rightarrow> b | None \<Rightarrow> ''arg'' @ str_of_nat j)
                (enumerate i nodes),
      types @ replicate (length nodes) ''torch.Tensor'')"
proof (induction nodes arbitrary: i cargs types)
  case Nil
  show ?case by simp
next
  case (Cons n nodes)
  show ?case by (simp add: Cons.IH)
qed

lemma fallback_eq:
  "fallback_output out (fallback_inputs 0 nodes ([], [])) =
     (map (\<lambda>(j, n). case get_name n of Some b \<Rightarrow> b | None \<Rightarrow> ''arg'' @ str_of_nat j)
          (enumerate 0 nodes)
        @ (case out of
             None \<Rightarrow> []
           | Some n \<Rightarrow> [case get_name n of Some b \<Rightarrow> b | None \<Rightarrow> ''out'']),
      replicate (length nodes + (case out of None \<Rightarrow> 0 | Some n \<Rightarrow> 1)) ''torch.Tensor'')"
  by (cases out) (simp_all add: fallback_inputs_eq replicate_append_same)

section \<open>The stack restore law\<close>

text \<open>
  Claim C1. Take any kernel, any region name \<open>n\<close> and any block run under
  \<^verbatim>\<open>with self.set_subgraph_body(n)\<close>. Whatever the block does (nested scopes to any
  depth, assignments, a raised exception), after the exit the fields \<open>body\<close>,
  \<open>template_mask\<close> and \<open>template_out\<close> hold what they held before the entry, and the
  block's result or exception is passed on unchanged. When the block consists of balanced
  nested scopes and raises only (no mutation), the buffer that \<open>body\<close> refers to also has
  the lines it had before; a \<^verbatim>\<open>raise\<close> right inside the scope leaves it as that
  exception. The hypothesis says that \<open>body\<close> refers to an existing buffer.
\<close>

theorem stack_restore_law:
  fixes block :: "CuteDSLTemplateKernel \<Rightarrow> 'a outcome"
  assumes "body k < length (heap k)"
  shows "body (snd (set_subgraph_body n block k)) = body k
       \<and> template_mask (snd (set_subgraph_body n block k)) = template_mask k
       \<and> template_out (snd (set_subgraph_body n block k)) = template_out k
       \<and> fst (set_subgraph_body n block k) = fst (block (snd (set_subgraph_body_enter n k)))
       \<and> body (snd (run_scope (Region n scopes) k)) = body k
       \<and> template_mask (snd (run_scope (Region n scopes) k)) = template_mask k
       \<and> template_out (snd (run_scope (Region n scopes) k)) = template_out k
       \<and> heap (snd (run_scope (Region n scopes) k)) ! body (snd (run_scope (Region n scopes) k))
           = heap k ! body k
       \<and> fst (run_scope (Region n (Fault e # scopes)) k) = Inl e"
proof -
  have f: "current_fields (snd (set_subgraph_body n block k)) = current_fields k"
    by (rule current_fields_set_subgraph_body)
  have g: "current_fields (snd (run_scope (Region n scopes) k)) = current_fields k"
    by (simp only: run_scope_Region current_fields_set_subgraph_body)
  have r: "fst (set_subgraph_body n block k) = fst (block (snd (set_subgraph_body_enter n k)))"
    by (simp add: set_subgraph_body_def split: prod.splits)
  obtain xs where xs: "heap (snd (run_scope (Region n scopes) k)) = heap k @ xs"
    using heap_run(1) by blast
  have b: "body (snd (run_scope (Region n scopes) k)) = body k"
    using g by (simp add: current_fields_def)
  have h: "heap (snd (run_scope (Region n scopes) k)) ! body (snd (run_scope (Region n scopes) k))
           = heap k ! body k"
    using assms by (simp only: b xs nth_append if_True)
  have e: "fst (run_scope (Region n (Fault e # scopes)) k) = Inl e"
    by (simp split: prod.splits)
  from f g r h e show ?thesis by (simp add: current_fields_def)
qed


theorem stack_restore_law_witness:
  "body (init ''k'' [] None) < length (heap (init ''k'' [] None))
   \<and> body (snd (set_subgraph_body ''A''
         (\<lambda>k. (Inl (TypeError ''boom'') :: error + unit, k\<lparr>template_mask := Some ''m''\<rparr>))
         (init ''k'' [] None))) = body (init ''k'' [] None)
   \<and> template_mask (snd (set_subgraph_body ''A''
         (\<lambda>k. (Inl (TypeError ''boom'') :: error + unit, k\<lparr>template_mask := Some ''m''\<rparr>))
         (init ''k'' [] None))) = template_mask (init ''k'' [] None)
   \<and> heap (snd (run_scope (Region ''A'' [Region ''B'' [Region ''A'' []], Region ''C'' [Fault (TypeError ''boom'')]])
         (init ''k'' [] None)))
       ! body (snd (run_scope (Region ''A'' [Region ''B'' [Region ''A'' []], Region ''C'' [Fault (TypeError ''boom'')]])
         (init ''k'' [] None)))
       = heap (init ''k'' [] None) ! body (init ''k'' [] None)"
proof -
  have h: "body (init ''k'' [] None) < length (heap (init ''k'' [] None))"
    by (simp add: init_def)
  from stack_restore_law [OF h, where n = "''A''"
      and block = "\<lambda>k. (Inl (TypeError ''boom'') :: error + unit, k\<lparr>template_mask := Some ''m''\<rparr>)"
      and scopes = "[Region ''B'' [Region ''A'' []], Region ''C'' [Fault (TypeError ''boom'')]]"
      and e = "TypeError ''boom''"]
  show ?thesis using h by blast
qed

section \<open>Auto-creation and explicit creation of regions\<close>

text \<open>
  Claim C7. When \<open>n\<close> is not in the region store, entering \<open>n\<close> is entering \<open>n\<close>
  after \<open>n\<close> was created: the store then maps \<open>n\<close> to a new empty buffer with mask and
  output absent, and these are the kernel's fields after the entry.
  \<^verbatim>\<open>create_subgraph_body(n)\<close> creates \<open>n\<close> and enters it when \<open>n\<close> is not in the
  store, and fails with the duplicate-region assertion, leaving the kernel as it was and
  not running the block, when \<open>n\<close> is in the store.
\<close>

theorem auto_create_and_create_then_enter:
  fixes block :: "CuteDSLTemplateKernel \<Rightarrow> 'a outcome"
  shows "(map_of (subgraph_bodies k) n = None \<longrightarrow>
            set_subgraph_body_enter n k = set_subgraph_body_enter n (new_subgraph n k)
          \<and> set_subgraph_body n block k = set_subgraph_body n block (new_subgraph n k)
          \<and> map_of (subgraph_bodies (new_subgraph n k)) n
              = Some \<lparr> sg_body = length (heap k), sg_template_mask = None, sg_template_out = None \<rparr>
          \<and> heap (new_subgraph n k) ! length (heap k) = []
          \<and> snd (set_subgraph_body_enter n k)
              = (new_subgraph n k)\<lparr> body := length (heap k), template_mask := None, template_out := None \<rparr>
          \<and> create_subgraph_body n block k = set_subgraph_body n block (new_subgraph n k))
       \<and> (map_of (subgraph_bodies k) n \<noteq> None \<longrightarrow>
            create_subgraph_body n block k = (Inl (DuplicateRegionError n), k))"
proof (intro conjI impI)
  assume a: "map_of (subgraph_bodies k) n = None"
  show e: "set_subgraph_body_enter n k = set_subgraph_body_enter n (new_subgraph n k)"
    using a by (simp add: set_subgraph_body_enter_def new_subgraph_present)
      (simp add: new_subgraph_def current_fields_def)
  show "set_subgraph_body n block k = set_subgraph_body n block (new_subgraph n k)"
    by (simp add: set_subgraph_body_def e)
  show "map_of (subgraph_bodies (new_subgraph n k)) n
          = Some \<lparr> sg_body = length (heap k), sg_template_mask = None, sg_template_out = None \<rparr>"
    by (rule new_subgraph_present)
  show "heap (new_subgraph n k) ! length (heap k) = []"
    by (simp add: new_subgraph_def)
  show "snd (set_subgraph_body_enter n k)
          = (new_subgraph n k)\<lparr> body := length (heap k), template_mask := None, template_out := None \<rparr>"
    using a by (simp add: set_subgraph_body_enter_def new_subgraph_present set_fields_def)
  show "create_subgraph_body n block k = set_subgraph_body n block (new_subgraph n k)"
    using a by (simp add: create_subgraph_body_def)
next
  assume "map_of (subgraph_bodies k) n \<noteq> None"
  then show "create_subgraph_body n block k = (Inl (DuplicateRegionError n), k)"
    by (simp add: create_subgraph_body_def)
qed

theorem auto_create_and_create_then_enter_witness:
  "map_of (subgraph_bodies (init ''k'' [] None)) ''A'' = None
   \<and> map_of (subgraph_bodies (snd (set_subgraph_body_enter ''A'' (init ''k'' [] None)))) ''A''
       = Some \<lparr> sg_body = 1, sg_template_mask = None, sg_template_out = None \<rparr>
   \<and> body (snd (set_subgraph_body_enter ''A'' (init ''k'' [] None))) = 1
   \<and> heap (snd (set_subgraph_body_enter ''A'' (init ''k'' [] None))) = [[], []]
   \<and> map_of (subgraph_bodies (new_subgraph ''A'' (init ''k'' [] None))) ''A'' \<noteq> None
   \<and> create_subgraph_body ''A'' (\<lambda>k. (Inr (), k)) (new_subgraph ''A'' (init ''k'' [] None))
       = (Inl (DuplicateRegionError ''A''), new_subgraph ''A'' (init ''k'' [] None))
   \<and> fst (create_subgraph_body ''A'' (\<lambda>k. (Inr (), k)) (init ''k'' [] None)) = Inr ()"
  using auto_create_and_create_then_enter [of "init ''k'' [] None" "''A''" "\<lambda>k. (Inr (), k)"]
    auto_create_and_create_then_enter [of "new_subgraph ''A'' (init ''k'' [] None)" "''A''" "\<lambda>k. (Inr (), k)"]
  by (simp add: init_def new_subgraph_def set_subgraph_body_def set_subgraph_body_enter_def
      set_subgraph_body_exit_def set_fields_def current_fields_def)

section \<open>What the signature definition binds and writes\<close>

text \<open>
  Claim C4. Let the first \<open>length argnames\<close> input nodes have the buffer names \<open>bs\<close>,
  let the output node, if there is one, have the buffer name \<open>ob\<close>, and let neither the
  region nor the hook \<^verbatim>\<open>"<DEF_KERNEL>"\<close> exist yet. Then \<^verbatim>\<open>def_kernel(*argnames)\<close>
  returns the token; the input table is the old one after binding, in order, the i-th
  buffer name to the i-th argument name, so with distinct buffer names the i-th buffer is
  bound to the i-th name; the output buffer, if present, is bound to \<^verbatim>\<open>"output"\<close>;
  and the region's buffer is new and holds the comment lines and, last, the line
  \<^verbatim>\<open>def <kernel_name>(<names joined by ", ">):\<close>.
\<close>

theorem def_kernel_binds_and_defines:
  assumes names: "map get_name (take (length argnames) (input_nodes k)) = map Some bs"
    and out: "map_option get_name (output_node k) = map_option Some ob"
    and region: "map_of (subgraph_bodies k) ''<DEF_KERNEL>'' = None"
    and hook: "map_of (render_hooks k) ''<DEF_KERNEL>'' = None"
  shows "fst (def_kernel argnames k) = Inr ''<DEF_KERNEL>''
    \<and> input_buffers (args (snd (def_kernel argnames k)))
        = bind_names (zip argnames bs) (input_buffers (args k))
    \<and> (distinct bs \<longrightarrow>
         (\<forall>i < length bs.
            map_of (input_buffers (args (snd (def_kernel argnames k)))) (bs ! i) = Some (argnames ! i)))
    \<and> (\<forall>b. ob = Some b \<longrightarrow>
          map_of (output_buffers (args (snd (def_kernel argnames k)))) b = Some ''output'')
    \<and> map_of (subgraph_bodies (snd (def_kernel argnames k))) ''<DEF_KERNEL>''
        = Some \<lparr> sg_body = length (heap k), sg_template_mask = None, sg_template_out = None \<rparr>
    \<and> heap (snd (def_kernel argnames k)) ! length (heap k)
        = (if argnames \<noteq> []
           then [''# CuteDSL kernel function: '' @ kernel_name k,
                 ''# Arguments: '' @ join '', '' argnames,
                 ''def '' @ kernel_name k @ ''('' @ join '', '' argnames @ ''):'']
           else [''# CuteDSL kernel function: '' @ kernel_name k,
                 ''def '' @ kernel_name k @ ''():''])
    \<and> last (heap (snd (def_kernel argnames k)) ! length (heap k))
        = ''def '' @ kernel_name k @ ''('' @ join '', '' argnames @ ''):''"
proof -
  note ok = def_kernel_ok [OF names out region hook]
  have len: "length bs \<le> length argnames"
    using arg_cong [OF names, of length] by simp
  have 1: "fst (def_kernel argnames k) = Inr ''<DEF_KERNEL>''"
    by (simp add: ok)
  have 2: "input_buffers (args (snd (def_kernel argnames k)))
        = bind_names (zip argnames bs) (input_buffers (args k))"
    by (simp add: ok)
  have 3: "distinct bs \<longrightarrow>
         (\<forall>i < length bs.
            map_of (input_buffers (args (snd (def_kernel argnames k)))) (bs ! i) = Some (argnames ! i))"
    by (simp add: 2 map_of_bind_names_nth len)
  have 4: "\<forall>b. ob = Some b \<longrightarrow>
          map_of (output_buffers (args (snd (def_kernel argnames k)))) b = Some ''output''"
    by (simp add: ok map_of_dict_set)
  have 5: "map_of (subgraph_bodies (snd (def_kernel argnames k))) ''<DEF_KERNEL>''
        = Some \<lparr> sg_body = length (heap k), sg_template_mask = None, sg_template_out = None \<rparr>"
    by (simp add: ok map_of_dict_set)
  have 6: "heap (snd (def_kernel argnames k)) ! length (heap k)
        = (if argnames \<noteq> []
           then [''# CuteDSL kernel function: '' @ kernel_name k,
                 ''# Arguments: '' @ join '', '' argnames,
                 ''def '' @ kernel_name k @ ''('' @ join '', '' argnames @ ''):'']
           else [''# CuteDSL kernel function: '' @ kernel_name k,
                 ''def '' @ kernel_name k @ ''():''])"
    by (simp add: ok)
  have 7: "last (heap (snd (def_kernel argnames k)) ! length (heap k))
        = ''def '' @ kernel_name k @ ''('' @ join '', '' argnames @ ''):''"
    by (simp add: 6)
  from 1 2 3 4 5 6 7 show ?thesis by blast
qed


theorem def_kernel_binds_and_defines_witness:
  "map get_name (take (length [''x'', ''y''])
       (input_nodes (init ''k'' [\<lparr>attr_name = Some ''a'', get_name = Some ''a''\<rparr>,
                                  \<lparr>attr_name = Some ''b'', get_name = Some ''b''\<rparr>]
                              (Some \<lparr>attr_name = Some ''c'', get_name = Some ''c''\<rparr>))))
     = map Some [''a'', ''b'']
   \<and> fst (def_kernel [''x'', ''y'']
            (init ''k'' [\<lparr>attr_name = Some ''a'', get_name = Some ''a''\<rparr>,
                         \<lparr>attr_name = Some ''b'', get_name = Some ''b''\<rparr>]
                     (Some \<lparr>attr_name = Some ''c'', get_name = Some ''c''\<rparr>)))
       = Inr ''<DEF_KERNEL>''
   \<and> input_buffers (args (snd (def_kernel [''x'', ''y'']
            (init ''k'' [\<lparr>attr_name = Some ''a'', get_name = Some ''a''\<rparr>,
                         \<lparr>attr_name = Some ''b'', get_name = Some ''b''\<rparr>]
                     (Some \<lparr>attr_name = Some ''c'', get_name = Some ''c''\<rparr>)))))
       = [(''a'', ''x''), (''b'', ''y'')]
   \<and> map_of (output_buffers (args (snd (def_kernel [''x'', ''y'']
            (init ''k'' [\<lparr>attr_name = Some ''a'', get_name = Some ''a''\<rparr>,
                         \<lparr>attr_name = Some ''b'', get_name = Some ''b''\<rparr>]
                     (Some \<lparr>attr_name = Some ''c'', get_name = Some ''c''\<rparr>)))))) ''c''
       = Some ''output''
   \<and> last (heap (snd (def_kernel [''x'', ''y'']
            (init ''k'' [\<lparr>attr_name = Some ''a'', get_name = Some ''a''\<rparr>,
                         \<lparr>attr_name = Some ''b'', get_name = Some ''b''\<rparr>]
                     (Some \<lparr>attr_name = Some ''c'', get_name = Some ''c''\<rparr>)))) ! 1)
       = ''def k(x, y):''"
proof -
  define k where "k = init ''k'' [\<lparr>attr_name = Some ''a'', get_name = Some ''a''\<rparr>,
                         \<lparr>attr_name = Some ''b'', get_name = Some ''b''\<rparr>]
                     (Some \<lparr>attr_name = Some ''c'', get_name = Some ''c''\<rparr>)"
  have names: "map get_name (take (length [''x'', ''y'']) (input_nodes k)) = map Some [''a'', ''b'']"
    by (simp add: k_def init_def)
  have out: "map_option get_name (output_node k) = map_option Some (Some ''c'')"
    by (simp add: k_def init_def)
  have region: "map_of (subgraph_bodies k) ''<DEF_KERNEL>'' = None"
    by (simp add: k_def init_def)
  have hook: "map_of (render_hooks k) ''<DEF_KERNEL>'' = None"
    by (simp add: k_def init_def)
  have v: "kernel_name k = ''k''" "length (heap k) = 1" "input_buffers (args k) = []"
    by (simp_all add: k_def init_def)
  from def_kernel_binds_and_defines [OF names out region hook] names
  show ?thesis
    unfolding k_def [symmetric] by (simp add: v)
qed


section \<open>Fewer or more argument names than input buffers\<close>

text \<open>
  Claim C10. Let every input node have a buffer name (\<open>bs\<close>, in order), and let neither
  the region nor the hook \<^verbatim>\<open>"<DEF_KERNEL>"\<close> exist yet. Then
  \<^verbatim>\<open>def_kernel(*argnames)\<close> raises nothing, whatever the number of names. The
  input table is the old one after binding the pairs of \<^verbatim>\<open>zip(argnames, bs)\<close>: its
  keys are the old keys and the first \<open>length argnames\<close> buffer names, its values are
  old values or among the first \<open>length bs\<close> argument names, and a later input buffer
  that was not bound before and is not one of the first stays unbound. With no names the
  input table and \<^verbatim>\<open>named_input_nodes\<close> are unchanged. In every case the output
  buffer, if present, is bound to \<^verbatim>\<open>"output"\<close>.
\<close>

theorem def_kernel_partial_binding:
  assumes names: "map get_name (input_nodes k) = map Some bs"
    and out: "map_option get_name (output_node k) = map_option Some ob"
    and region: "map_of (subgraph_bodies k) ''<DEF_KERNEL>'' = None"
    and hook: "map_of (render_hooks k) ''<DEF_KERNEL>'' = None"
  shows "fst (def_kernel argnames k) = Inr ''<DEF_KERNEL>''
    \<and> input_buffers (args (snd (def_kernel argnames k)))
        = bind_names (zip argnames bs) (input_buffers (args k))
    \<and> fst ` set (input_buffers (args (snd (def_kernel argnames k))))
        = fst ` set (input_buffers (args k)) \<union> set (take (length argnames) bs)
    \<and> snd ` set (input_buffers (args (snd (def_kernel argnames k))))
        \<subseteq> snd ` set (input_buffers (args k)) \<union> set (take (length bs) argnames)
    \<and> (\<forall>j. length argnames \<le> j \<and> j < length bs
            \<and> bs ! j \<notin> set (take (length argnames) bs)
            \<and> map_of (input_buffers (args k)) (bs ! j) = None
          \<longrightarrow> map_of (input_buffers (args (snd (def_kernel argnames k)))) (bs ! j) = None)
    \<and> (argnames = [] \<longrightarrow>
          input_buffers (args (snd (def_kernel argnames k))) = input_buffers (args k)
        \<and> named_input_nodes (snd (def_kernel argnames k)) = named_input_nodes k)
    \<and> (\<forall>b. ob = Some b \<longrightarrow>
          map_of (output_buffers (args (snd (def_kernel argnames k)))) b = Some ''output'')"
proof -
  have names': "map get_name (take (length argnames) (input_nodes k))
                  = map Some (take (length argnames) bs)"
    using arg_cong [OF names, of "take (length argnames)"] by (simp add: take_map)
  note ok = def_kernel_ok [OF names' out region hook]
  have 1: "fst (def_kernel argnames k) = Inr ''<DEF_KERNEL>''"
    by (simp add: ok)
  have 2: "input_buffers (args (snd (def_kernel argnames k)))
        = bind_names (zip argnames bs) (input_buffers (args k))"
    by (simp add: ok zip_take_length)
  have 3: "fst ` set (input_buffers (args (snd (def_kernel argnames k))))
        = fst ` set (input_buffers (args k)) \<union> set (take (length argnames) bs)"
  proof -
    have "snd ` set (zip argnames bs) = set (map snd (zip argnames bs))" by simp
    also have "\<dots> = set (take (length argnames) bs)"
      by (simp only: map_snd_zip_take) (simp add: min_def take_all)
    finally show ?thesis by (simp add: 2 keys_bind_names)
  qed
  have 4: "snd ` set (input_buffers (args (snd (def_kernel argnames k))))
        \<subseteq> snd ` set (input_buffers (args k)) \<union> set (take (length bs) argnames)"
  proof -
    have "fst ` set (zip argnames bs) = set (map fst (zip argnames bs))" by simp
    also have "\<dots> = set (take (length bs) argnames)"
      by (simp only: map_fst_zip_take) (simp add: min_def take_all)
    finally show ?thesis using values_bind_names [of "zip argnames bs" "input_buffers (args k)"]
      by (simp add: 2)
  qed
  have 5: "\<forall>j. length argnames \<le> j \<and> j < length bs
            \<and> bs ! j \<notin> set (take (length argnames) bs)
            \<and> map_of (input_buffers (args k)) (bs ! j) = None
          \<longrightarrow> map_of (input_buffers (args (snd (def_kernel argnames k)))) (bs ! j) = None"
  proof (intro allI impI)
    fix j
    assume a: "length argnames \<le> j \<and> j < length bs
            \<and> bs ! j \<notin> set (take (length argnames) bs)
            \<and> map_of (input_buffers (args k)) (bs ! j) = None"
    then have "bs ! j \<notin> fst ` set (input_buffers (args k))"
      by (simp add: map_of_eq_None_iff)
    with a have "bs ! j \<notin> fst ` set (input_buffers (args (snd (def_kernel argnames k))))"
      by (simp add: 3)
    then show "map_of (input_buffers (args (snd (def_kernel argnames k)))) (bs ! j) = None"
      by (simp add: map_of_eq_None_iff)
  qed
  have 6: "argnames = [] \<longrightarrow>
          input_buffers (args (snd (def_kernel argnames k))) = input_buffers (args k)
        \<and> named_input_nodes (snd (def_kernel argnames k)) = named_input_nodes k"
  proof (intro impI)
    assume e: "argnames = []"
    from ok show "input_buffers (args (snd (def_kernel argnames k))) = input_buffers (args k)
        \<and> named_input_nodes (snd (def_kernel argnames k)) = named_input_nodes k"
      by (simp add: e)
  qed
  have 7: "\<forall>b. ob = Some b \<longrightarrow>
          map_of (output_buffers (args (snd (def_kernel argnames k)))) b = Some ''output''"
    by (simp add: ok map_of_dict_set)
  from 1 2 3 4 5 6 7 show ?thesis by blast
qed

theorem def_kernel_partial_binding_witness:
  "map get_name (input_nodes
        (init ''k'' [\<lparr>attr_name = Some ''a'', get_name = Some ''a''\<rparr>,
                     \<lparr>attr_name = Some ''b'', get_name = Some ''b''\<rparr>]
                 (Some \<lparr>attr_name = Some ''c'', get_name = Some ''c''\<rparr>)))
     = map Some [''a'', ''b'']
   \<and> fst (def_kernel [''x'']
        (init ''k'' [\<lparr>attr_name = Some ''a'', get_name = Some ''a''\<rparr>,
                     \<lparr>attr_name = Some ''b'', get_name = Some ''b''\<rparr>]
                 (Some \<lparr>attr_name = Some ''c'', get_name = Some ''c''\<rparr>)))
       = Inr ''<DEF_KERNEL>''
   \<and> input_buffers (args (snd (def_kernel [''x'']
        (init ''k'' [\<lparr>attr_name = Some ''a'', get_name = Some ''a''\<rparr>,
                     \<lparr>attr_name = Some ''b'', get_name = Some ''b''\<rparr>]
                 (Some \<lparr>attr_name = Some ''c'', get_name = Some ''c''\<rparr>)))))
       = [(''a'', ''x'')]
   \<and> map_of (input_buffers (args (snd (def_kernel [''x'']
        (init ''k'' [\<lparr>attr_name = Some ''a'', get_name = Some ''a''\<rparr>,
                     \<lparr>attr_name = Some ''b'', get_name = Some ''b''\<rparr>]
                 (Some \<lparr>attr_name = Some ''c'', get_name = Some ''c''\<rparr>)))))) ''b''
       = None
   \<and> fst (def_kernel [''x'', ''y'', ''z'']
        (init ''k'' [\<lparr>attr_name = Some ''a'', get_name = Some ''a''\<rparr>,
                     \<lparr>attr_name = Some ''b'', get_name = Some ''b''\<rparr>]
                 (Some \<lparr>attr_name = Some ''c'', get_name = Some ''c''\<rparr>)))
       = Inr ''<DEF_KERNEL>''
   \<and> input_buffers (args (snd (def_kernel [''x'', ''y'', ''z'']
        (init ''k'' [\<lparr>attr_name = Some ''a'', get_name = Some ''a''\<rparr>,
                     \<lparr>attr_name = Some ''b'', get_name = Some ''b''\<rparr>]
                 (Some \<lparr>attr_name = Some ''c'', get_name = Some ''c''\<rparr>)))))
       = [(''a'', ''x''), (''b'', ''y'')]
   \<and> input_buffers (args (snd (def_kernel []
        (init ''k'' [\<lparr>attr_name = Some ''a'', get_name = Some ''a''\<rparr>,
                     \<lparr>attr_name = Some ''b'', get_name = Some ''b''\<rparr>]
                 (Some \<lparr>attr_name = Some ''c'', get_name = Some ''c''\<rparr>)))))
       = []
   \<and> map_of (output_buffers (args (snd (def_kernel []
        (init ''k'' [\<lparr>attr_name = Some ''a'', get_name = Some ''a''\<rparr>,
                     \<lparr>attr_name = Some ''b'', get_name = Some ''b''\<rparr>]
                 (Some \<lparr>attr_name = Some ''c'', get_name = Some ''c''\<rparr>)))))) ''c''
       = Some ''output''"
proof -
  define k where "k = init ''k'' [\<lparr>attr_name = Some ''a'', get_name = Some ''a''\<rparr>,
                     \<lparr>attr_name = Some ''b'', get_name = Some ''b''\<rparr>]
                 (Some \<lparr>attr_name = Some ''c'', get_name = Some ''c''\<rparr>)"
  have names: "map get_name (input_nodes k) = map Some [''a'', ''b'']"
    by (simp add: k_def init_def)
  have out: "map_option get_name (output_node k) = map_option Some (Some ''c'')"
    by (simp add: k_def init_def)
  have region: "map_of (subgraph_bodies k) ''<DEF_KERNEL>'' = None"
    by (simp add: k_def init_def)
  have hook: "map_of (render_hooks k) ''<DEF_KERNEL>'' = None"
    by (simp add: k_def init_def)
  have v: "input_buffers (args k) = []"
    by (simp add: k_def init_def)
  from def_kernel_partial_binding [OF names out region hook, of "[''x'']"]
    def_kernel_partial_binding [OF names out region hook, of "[''x'', ''y'', ''z'']"]
    def_kernel_partial_binding [OF names out region hook, of "[]"]
    names
  show ?thesis
    unfolding k_def [symmetric] by (simp add: v)
qed

section \<open>Calling an operation twice\<close>

text \<open>
  Claim C3, as the code has it. Let every input node and the output node, if any, have a
  buffer name. A first \<^verbatim>\<open>def_kernel\<close> on a kernel with neither the region nor the
  hook \<^verbatim>\<open>"<DEF_KERNEL>"\<close> returns the token, and a second call, with any argument
  names, fails; the same holds for \<^verbatim>\<open>store_output\<close> and \<^verbatim>\<open>"<STORE_OUTPUT>"\<close>.
  The failure is the assertion of \<^verbatim>\<open>create_subgraph_body\<close> (the region exists), which
  comes before the hook is looked at: any call on a kernel that has the region fails so.
  The assertion on \<^verbatim>\<open>render_hooks\<close> is what fails a call only when the token is
  registered and the region does not exist. The two assertions raise different messages.
\<close>

theorem second_call_fails_on_region:
  assumes names: "map get_name (input_nodes k) = map Some bs"
    and out: "map_option get_name (output_node k) = map_option Some ob"
  shows
   "(map_of (subgraph_bodies k) ''<DEF_KERNEL>'' = None \<and>
     map_of (render_hooks k) ''<DEF_KERNEL>'' = None \<longrightarrow>
       fst (def_kernel argnames k) = Inr ''<DEF_KERNEL>'' \<and>
       fst (def_kernel argnames' (snd (def_kernel argnames k)))
         = Inl (DuplicateRegionError ''<DEF_KERNEL>''))
  \<and> (map_of (subgraph_bodies k) ''<STORE_OUTPUT>'' = None \<and>
     map_of (render_hooks k) ''<STORE_OUTPUT>'' = None \<longrightarrow>
       fst (store_output indices val msk w k) = Inr ''<STORE_OUTPUT>'' \<and>
       fst (store_output indices' val' msk' w' (snd (store_output indices val msk w k)))
         = Inl (DuplicateRegionError ''<STORE_OUTPUT>''))
  \<and> (map_of (subgraph_bodies k) ''<DEF_KERNEL>'' \<noteq> None \<longrightarrow>
       fst (def_kernel argnames k) = Inl (DuplicateRegionError ''<DEF_KERNEL>''))
  \<and> (map_of (subgraph_bodies k) ''<STORE_OUTPUT>'' \<noteq> None \<longrightarrow>
       fst (store_output indices val msk w k) = Inl (DuplicateRegionError ''<STORE_OUTPUT>''))
  \<and> (map_of (subgraph_bodies k) ''<DEF_KERNEL>'' = None \<and>
     map_of (render_hooks k) ''<DEF_KERNEL>'' \<noteq> None \<longrightarrow>
       fst (def_kernel argnames k) = Inl DuplicateHookError_DEF_KERNEL)
  \<and> (map_of (subgraph_bodies k) ''<STORE_OUTPUT>'' = None \<and>
     map_of (render_hooks k) ''<STORE_OUTPUT>'' \<noteq> None \<longrightarrow>
       fst (store_output indices val msk w k) = Inl DuplicateHookError_STORE_OUTPUT)
  \<and> DuplicateRegionError ''<DEF_KERNEL>'' \<noteq> DuplicateHookError_DEF_KERNEL
  \<and> DuplicateRegionError ''<STORE_OUTPUT>'' \<noteq> DuplicateHookError_STORE_OUTPUT"
proof -
  note n = take_names [OF names]
  have 1: "map_of (subgraph_bodies k) ''<DEF_KERNEL>'' = None \<and>
     map_of (render_hooks k) ''<DEF_KERNEL>'' = None \<longrightarrow>
       fst (def_kernel argnames k) = Inr ''<DEF_KERNEL>'' \<and>
       fst (def_kernel argnames' (snd (def_kernel argnames k)))
         = Inl (DuplicateRegionError ''<DEF_KERNEL>'')"
  proof (intro impI)
    assume a: "map_of (subgraph_bodies k) ''<DEF_KERNEL>'' = None \<and>
     map_of (render_hooks k) ''<DEF_KERNEL>'' = None"
    note ok = def_kernel_ok [OF n out conjunct1 [OF a] conjunct2 [OF a]]
    define k' where "k' = snd (def_kernel argnames k)"
    have i: "input_nodes k' = input_nodes k" "output_node k' = output_node k"
      by (simp_all add: k'_def ok)
    have r: "map_of (subgraph_bodies k') ''<DEF_KERNEL>'' \<noteq> None"
      by (simp add: k'_def ok map_of_dict_set)
    have n': "map get_name (take (length argnames') (input_nodes k'))
               = map Some (take (length argnames') bs)"
      by (simp only: i take_names [OF names])
    have o': "map_option get_name (output_node k') = map_option Some ob"
      by (simp only: i out)
    from def_kernel_existing [OF n' o' r]
    show "fst (def_kernel argnames k) = Inr ''<DEF_KERNEL>'' \<and>
       fst (def_kernel argnames' (snd (def_kernel argnames k)))
         = Inl (DuplicateRegionError ''<DEF_KERNEL>'')"
      by (simp add: k'_def [symmetric]) (simp add: ok)
  qed
  have 2: "map_of (subgraph_bodies k) ''<STORE_OUTPUT>'' = None \<and>
     map_of (render_hooks k) ''<STORE_OUTPUT>'' = None \<longrightarrow>
       fst (store_output indices val msk w k) = Inr ''<STORE_OUTPUT>'' \<and>
       fst (store_output indices' val' msk' w' (snd (store_output indices val msk w k)))
         = Inl (DuplicateRegionError ''<STORE_OUTPUT>'')"
  proof (intro impI)
    assume a: "map_of (subgraph_bodies k) ''<STORE_OUTPUT>'' = None \<and>
     map_of (render_hooks k) ''<STORE_OUTPUT>'' = None"
    note ok = store_output_new [OF conjunct1 [OF a], of indices val msk w]
    define k' where "k' = snd (store_output indices val msk w k)"
    have r: "map_of (subgraph_bodies k') ''<STORE_OUTPUT>'' \<noteq> None"
      using a by (simp add: k'_def ok Let_def map_of_dict_set)
    from store_output_existing [OF r, of indices' val' msk' w'] a
    show "fst (store_output indices val msk w k) = Inr ''<STORE_OUTPUT>'' \<and>
       fst (store_output indices' val' msk' w' (snd (store_output indices val msk w k)))
         = Inl (DuplicateRegionError ''<STORE_OUTPUT>'')"
      by (simp add: k'_def [symmetric]) (simp add: ok Let_def)
  qed
  have 3: "map_of (subgraph_bodies k) ''<DEF_KERNEL>'' \<noteq> None \<longrightarrow>
       fst (def_kernel argnames k) = Inl (DuplicateRegionError ''<DEF_KERNEL>'')"
    using def_kernel_existing [OF n out] by blast
  have 4: "map_of (subgraph_bodies k) ''<STORE_OUTPUT>'' \<noteq> None \<longrightarrow>
       fst (store_output indices val msk w k) = Inl (DuplicateRegionError ''<STORE_OUTPUT>'')"
    by (simp add: store_output_existing)
  have 5: "map_of (subgraph_bodies k) ''<DEF_KERNEL>'' = None \<and>
     map_of (render_hooks k) ''<DEF_KERNEL>'' \<noteq> None \<longrightarrow>
       fst (def_kernel argnames k) = Inl DuplicateHookError_DEF_KERNEL"
    using def_kernel_hook_registered [OF n out] by blast
  have 6: "map_of (subgraph_bodies k) ''<STORE_OUTPUT>'' = None \<and>
     map_of (render_hooks k) ''<STORE_OUTPUT>'' \<noteq> None \<longrightarrow>
       fst (store_output indices val msk w k) = Inl DuplicateHookError_STORE_OUTPUT"
    by (auto simp: store_output_new Let_def)
  from 1 2 3 4 5 6 errors_differ show ?thesis by blast
qed


theorem second_call_fails_on_region_witness:
  "map get_name (input_nodes (init ''k'' [\<lparr>attr_name = Some ''a'', get_name = Some ''a''\<rparr>] None))
     = map Some [''a'']
   \<and> map_of (subgraph_bodies (init ''k'' [\<lparr>attr_name = Some ''a'', get_name = Some ''a''\<rparr>] None))
        ''<DEF_KERNEL>'' = None
   \<and> map_of (render_hooks (init ''k'' [\<lparr>attr_name = Some ''a'', get_name = Some ''a''\<rparr>] None))
        ''<DEF_KERNEL>'' = None
   \<and> fst (def_kernel [''x''] (init ''k'' [\<lparr>attr_name = Some ''a'', get_name = Some ''a''\<rparr>] None))
       = Inr ''<DEF_KERNEL>''
   \<and> fst (def_kernel [''x'']
        (snd (def_kernel [''x''] (init ''k'' [\<lparr>attr_name = Some ''a'', get_name = Some ''a''\<rparr>] None))))
       = Inl (DuplicateRegionError ''<DEF_KERNEL>'')
   \<and> fst (store_output None ''v'' None 4
        (snd (store_output None ''v'' None 4
           (init ''k'' [\<lparr>attr_name = Some ''a'', get_name = Some ''a''\<rparr>] None))))
       = Inl (DuplicateRegionError ''<STORE_OUTPUT>'')"
proof -
  define k where "k = init ''k'' [\<lparr>attr_name = Some ''a'', get_name = Some ''a''\<rparr>] None"
  have names: "map get_name (input_nodes k) = map Some [''a'']"
    by (simp add: k_def init_def)
  have out: "map_option get_name (output_node k) = map_option Some None"
    by (simp add: k_def init_def)
  have absent: "map_of (subgraph_bodies k) ''<DEF_KERNEL>'' = None"
    "map_of (render_hooks k) ''<DEF_KERNEL>'' = None"
    "map_of (subgraph_bodies k) ''<STORE_OUTPUT>'' = None"
    "map_of (render_hooks k) ''<STORE_OUTPUT>'' = None"
    by (simp_all add: k_def init_def)
  from second_call_fails_on_region [OF names out, where argnames = "[''x'']"
      and argnames' = "[''x'']" and indices = None and val = "''v''" and msk = None and w = 4
      and indices' = None and val' = "''v''" and msk' = None and w' = 4]
    names absent
  show ?thesis
    unfolding k_def [symmetric] by blast
qed

text \<open>
  The claim as stated names the hook assertion for the second call. On a kernel with one
  input the second \<^verbatim>\<open>def_kernel\<close> and the second \<^verbatim>\<open>store_output\<close> raise the
  region assertion instead.
\<close>

theorem second_call_not_DuplicateHookError:
  "fst (def_kernel [''x'']
        (snd (def_kernel [''x''] (init ''k'' [\<lparr>attr_name = Some ''a'', get_name = Some ''a''\<rparr>] None))))
       = Inl (DuplicateRegionError ''<DEF_KERNEL>'')
   \<and> fst (def_kernel [''x'']
        (snd (def_kernel [''x''] (init ''k'' [\<lparr>attr_name = Some ''a'', get_name = Some ''a''\<rparr>] None))))
       \<noteq> Inl DuplicateHookError_DEF_KERNEL
   \<and> fst (store_output None ''v'' None 4
        (snd (store_output None ''v'' None 4
           (init ''k'' [\<lparr>attr_name = Some ''a'', get_name = Some ''a''\<rparr>] None))))
       = Inl (DuplicateRegionError ''<STORE_OUTPUT>'')
   \<and> fst (store_output None ''v'' None 4
        (snd (store_output None ''v'' None 4
           (init ''k'' [\<lparr>attr_name = Some ''a'', get_name = Some ''a''\<rparr>] None))))
       \<noteq> Inl DuplicateHookError_STORE_OUTPUT"
proof -
  define k where "k = init ''k'' [\<lparr>attr_name = Some ''a'', get_name = Some ''a''\<rparr>] None"
  have names: "map get_name (take (length [''x'']) (input_nodes k)) = map Some [''a'']"
    by (simp add: k_def init_def)
  have out: "map_option get_name (output_node k) = map_option Some None"
    by (simp add: k_def init_def)
  have absent: "map_of (subgraph_bodies k) ''<DEF_KERNEL>'' = None"
    "map_of (render_hooks k) ''<DEF_KERNEL>'' = None"
    "map_of (subgraph_bodies k) ''<STORE_OUTPUT>'' = None"
    by (simp_all add: k_def init_def)
  define k1 where "k1 = snd (def_kernel [''x''] k)"
  define k2 where "k2 = snd (store_output None ''v'' None 4 k)"
  have k1: "input_nodes k1 = input_nodes k" "output_node k1 = output_node k"
    "map_of (subgraph_bodies k1) ''<DEF_KERNEL>'' \<noteq> None"
    by (simp_all add: k1_def def_kernel_ok [OF names out absent(1,2)] map_of_dict_set)
  have d: "fst (def_kernel [''x''] k1) = Inl (DuplicateRegionError ''<DEF_KERNEL>'')"
  proof -
    have n1: "map get_name (take (length [''x'']) (input_nodes k1)) = map Some [''a'']"
      using names by (simp only: k1)
    have o1: "map_option get_name (output_node k1) = map_option Some None"
      using out by (simp only: k1)
    show ?thesis by (rule def_kernel_existing [OF n1 o1 k1(3)])
  qed
  have k2: "map_of (subgraph_bodies k2) ''<STORE_OUTPUT>'' \<noteq> None"
    by (simp add: k2_def store_output_new [OF absent(3)] Let_def map_of_dict_set)
  have s: "fst (store_output None ''v'' None 4 k2) = Inl (DuplicateRegionError ''<STORE_OUTPUT>'')"
    by (simp add: store_output_existing [OF k2])
  from d s errors_differ show ?thesis
    unfolding k_def [symmetric] k1_def [symmetric] k2_def [symmetric] by simp
qed

section \<open>What the store operation saves\<close>

text \<open>
  Claim C9, as the code has it. When the region \<^verbatim>\<open>"<STORE_OUTPUT>"\<close> does not exist
  yet, \<^verbatim>\<open>store_output\<close> leaves it in the store with a new buffer, the given mask and
  the given value; the kernel's own \<open>template_mask\<close>, \<open>template_out\<close> and \<open>body\<close>
  are what they were before the call. \<^verbatim>\<open>CuteDSLSubgraphInfo\<close> has no field for the
  index list: it is assigned to the kernel's \<open>template_indices\<close> and stays there after
  the call (also when the hook assertion fails).
\<close>

theorem store_output_saves_mask_and_value:
  assumes region: "map_of (subgraph_bodies k) ''<STORE_OUTPUT>'' = None"
  shows "map_of (subgraph_bodies (snd (store_output indices val msk w k))) ''<STORE_OUTPUT>''
           = Some \<lparr> sg_body = length (heap k), sg_template_mask = msk, sg_template_out = Some val \<rparr>
       \<and> template_mask (snd (store_output indices val msk w k)) = template_mask k
       \<and> template_out (snd (store_output indices val msk w k)) = template_out k
       \<and> body (snd (store_output indices val msk w k)) = body k
       \<and> template_indices (snd (store_output indices val msk w k))
           = Some (case indices of None \<Rightarrow> [] | Some xs \<Rightarrow> xs)"
  by (simp add: store_output_new [OF region] Let_def map_of_dict_set)

theorem store_output_saves_mask_and_value_witness:
  "map_of (subgraph_bodies (init ''k'' [] None)) ''<STORE_OUTPUT>'' = None
   \<and> map_of (subgraph_bodies (snd (store_output (Some [''i'', ''j'']) ''v'' (Some ''m'') 4
         (init ''k'' [] None)))) ''<STORE_OUTPUT>''
       = Some \<lparr> sg_body = 1, sg_template_mask = Some ''m'', sg_template_out = Some ''v'' \<rparr>
   \<and> template_mask (snd (store_output (Some [''i'', ''j'']) ''v'' (Some ''m'') 4 (init ''k'' [] None)))
       = None
   \<and> template_indices (snd (store_output (Some [''i'', ''j'']) ''v'' (Some ''m'') 4 (init ''k'' [] None)))
       = Some [''i'', ''j'']"
proof -
  have region: "map_of (subgraph_bodies (init ''k'' [] None)) ''<STORE_OUTPUT>'' = None"
    by (simp add: init_def)
  have v: "length (heap (init ''k'' [] None)) = 1" "template_mask (init ''k'' [] None) = None"
    by (simp_all add: init_def)
  from store_output_saves_mask_and_value [OF region, of "Some [''i'', ''j'']" "''v''" "Some ''m''" 4]
    region
  show ?thesis by (simp add: v)
qed

text \<open>
  The claim as stated has the index list saved into the region and not left as a change of
  the kernel. On a new kernel \<open>template_indices\<close> is \<open>None\<close> before the call and the
  index list after it, and the region's state holds the buffer, the mask and the value only.
\<close>

theorem template_indices_not_restored:
  "template_indices (init ''k'' [] None) = None
   \<and> template_indices (snd (store_output (Some [''i'', ''j'']) ''v'' (Some ''m'') 4 (init ''k'' [] None)))
       = Some [''i'', ''j'']
   \<and> template_indices (snd (store_output (Some [''i'', ''j'']) ''v'' (Some ''m'') 4 (init ''k'' [] None)))
       \<noteq> template_indices (init ''k'' [] None)
   \<and> map_of (subgraph_bodies (snd (store_output (Some [''i'', ''j'']) ''v'' (Some ''m'') 4
         (init ''k'' [] None)))) ''<STORE_OUTPUT>''
       = Some \<lparr> sg_body = 1, sg_template_mask = Some ''m'', sg_template_out = Some ''v'' \<rparr>"
proof -
  have region: "map_of (subgraph_bodies (init ''k'' [] None)) ''<STORE_OUTPUT>'' = None"
    by (simp add: init_def)
  show ?thesis
    by (simp add: store_output_new [OF region] Let_def map_of_dict_set) (simp add: init_def)
qed

section \<open>What a hook returns\<close>

text \<open>
  Claim C2. The claim is that the hook registered for \<^verbatim>\<open>"<DEF_KERNEL>"\<close> or
  \<^verbatim>\<open>"<STORE_OUTPUT>"\<close>, called at any later point, returns the trimmed text of that
  region's buffer. The hooks read \<^verbatim>\<open>self.body\<close> when they are called
  (\<open>hook_reads_current_body\<close>), and after the \<^verbatim>\<open>with\<close> statement \<open>body\<close> is the
  outer buffer again. On a kernel with inputs \<open>a\<close>, \<open>b\<close> and output \<open>c\<close>, after
  \<^verbatim>\<open>def_kernel("x", "y")\<close> and \<^verbatim>\<open>store_output(["i", "j"], "v", "m")\<close>, both
  hooks return the empty text, while the two regions hold the definition and the store
  record.
\<close>

theorem hooks_after_exit_return_outer_body:
  "resolve_hook ''<DEF_KERNEL>''
     (snd (store_output (Some [''i'', ''j'']) ''v'' (Some ''m'') 4
        (snd (def_kernel [''x'', ''y'']
           (init ''k'' [\<lparr>attr_name = Some ''a'', get_name = Some ''a''\<rparr>,
                        \<lparr>attr_name = Some ''b'', get_name = Some ''b''\<rparr>]
                    (Some \<lparr>attr_name = Some ''c'', get_name = Some ''c''\<rparr>))))))
     = Some []
   \<and> region_text ''<DEF_KERNEL>''
     (snd (store_output (Some [''i'', ''j'']) ''v'' (Some ''m'') 4
        (snd (def_kernel [''x'', ''y'']
           (init ''k'' [\<lparr>attr_name = Some ''a'', get_name = Some ''a''\<rparr>,
                        \<lparr>attr_name = Some ''b'', get_name = Some ''b''\<rparr>]
                    (Some \<lparr>attr_name = Some ''c'', get_name = Some ''c''\<rparr>))))))
     = Some ''# CuteDSL kernel function: k\<newline># Arguments: x, y\<newline>def k(x, y):''
   \<and> resolve_hook ''<STORE_OUTPUT>''
     (snd (store_output (Some [''i'', ''j'']) ''v'' (Some ''m'') 4
        (snd (def_kernel [''x'', ''y'']
           (init ''k'' [\<lparr>attr_name = Some ''a'', get_name = Some ''a''\<rparr>,
                        \<lparr>attr_name = Some ''b'', get_name = Some ''b''\<rparr>]
                    (Some \<lparr>attr_name = Some ''c'', get_name = Some ''c''\<rparr>))))))
     = Some []
   \<and> region_text ''<STORE_OUTPUT>''
     (snd (store_output (Some [''i'', ''j'']) ''v'' (Some ''m'') 4
        (snd (def_kernel [''x'', ''y'']
           (init ''k'' [\<lparr>attr_name = Some ''a'', get_name = Some ''a''\<rparr>,
                        \<lparr>attr_name = Some ''b'', get_name = Some ''b''\<rparr>]
                    (Some \<lparr>attr_name = Some ''c'', get_name = Some ''c''\<rparr>))))))
     = Some ''# Store output: v\<newline># Mask: m''"
  by code_simp


section \<open>The text of the store hook\<close>

text \<open>
  Claim C5. The claim is that after \<^verbatim>\<open>store_output(["i", "j"], "v", "m")\<close> the hook
  gives a text with \<open>v\<close> and with \<open>m\<close>, and with no mask when the mask is \<open>None\<close>. On
  a new kernel the hook, called after \<^verbatim>\<open>store_output\<close> has returned, gives the empty
  text: the value and the mask are in the region's buffer, which the hook reads only when it
  is called while the region is entered. With the mask \<open>None\<close> the region's buffer has the
  value line alone.
\<close>

theorem store_output_hook_misses_value_and_mask:
  "resolve_hook ''<STORE_OUTPUT>''
     (snd (store_output (Some [''i'', ''j'']) ''v'' (Some ''m'') 4 (init ''k'' [] None)))
     = Some []
   \<and> region_text ''<STORE_OUTPUT>''
     (snd (store_output (Some [''i'', ''j'']) ''v'' (Some ''m'') 4 (init ''k'' [] None)))
     = Some ''# Store output: v\<newline># Mask: m''
   \<and> fst (set_subgraph_body ''<STORE_OUTPUT>'' (\<lambda>k. (Inr (resolve_hook ''<STORE_OUTPUT>'' k), k))
     (snd (store_output (Some [''i'', ''j'']) ''v'' (Some ''m'') 4 (init ''k'' [] None))))
     = Inr (Some ''# Store output: v\<newline># Mask: m'')
   \<and> resolve_hook ''<STORE_OUTPUT>''
     (snd (store_output (Some [''i'', ''j'']) ''v'' None 4 (init ''k'' [] None)))
     = Some []
   \<and> region_text ''<STORE_OUTPUT>''
     (snd (store_output (Some [''i'', ''j'']) ''v'' None 4 (init ''k'' [] None)))
     = Some ''# Store output: v''"
  by code_simp

section \<open>Rendering passes the template's text on\<close>

text \<open>
  Claim C8, as the code has it. When no caller-supplied binding is named
  \<^verbatim>\<open>self\<close> or \<^verbatim>\<open>template\<close> (the parameters of \<^verbatim>\<open>render\<close>) or
  \<^verbatim>\<open>kernel_name\<close>, \<^verbatim>\<open>input_nodes\<close>, \<^verbatim>\<open>output_node\<close>,
  \<^verbatim>\<open>store_output\<close> or \<^verbatim>\<open>def_kernel\<close> (the keywords \<^verbatim>\<open>render\<close> passes
  itself), \<open>render\<close> gives exactly what the rendering service gives (the text or the
  exception, and the kernel as the service left it) for the kernel's name, inputs and
  output, the two operations, and the caller's bindings; no hook is called. When a binding
  is named \<^verbatim>\<open>self\<close> or \<^verbatim>\<open>template\<close>, the call raises TypeError for the first
  such name; otherwise, when a binding has one of the five keyword names, the call raises
  TypeError for the first such name. In both cases the service does not run and the kernel
  is unchanged.
\<close>

theorem render_passes_through:
  "(find (\<lambda>key. key \<in> set render_parameters) (map fst kwargs) = None \<and>
    find (\<lambda>key. key \<in> set reserved_keywords) (map fst kwargs) = None \<longrightarrow>
      render template kwargs k =
        template \<lparr> env_kernel_name = kernel_name k,
                   env_input_nodes = input_nodes k,
                   env_output_node = output_node k,
                   env_store_output = store_output,
                   env_def_kernel = def_kernel,
                   env_kwargs = kwargs \<rparr> k)
   \<and> (\<forall>key. find (\<lambda>key. key \<in> set render_parameters) (map fst kwargs) = Some key \<longrightarrow>
      render template kwargs k = (Inl (TypeError key), k))
   \<and> (\<forall>key. find (\<lambda>key. key \<in> set render_parameters) (map fst kwargs) = None \<and>
            find (\<lambda>key. key \<in> set reserved_keywords) (map fst kwargs) = Some key \<longrightarrow>
      render template kwargs k = (Inl (TypeError key), k))"
  by (simp add: render_def)

theorem render_passes_through_witness:
  "find (\<lambda>key. key \<in> set render_parameters) (map fst [(''BLOCK'', 64 :: nat)]) = None
   \<and> find (\<lambda>key. key \<in> set reserved_keywords) (map fst [(''BLOCK'', 64 :: nat)]) = None
   \<and> fst (render example_template [(''BLOCK'', 64)]
        (init ''k'' [\<lparr>attr_name = Some ''a'', get_name = Some ''a''\<rparr>] None))
      = Inr ''<DEF_KERNEL>; k; <STORE_OUTPUT>''
   \<and> find (\<lambda>key. key \<in> set render_parameters)
         (map fst [(''BLOCK'', 64 :: nat), (''def_kernel'', 0)]) = None
   \<and> find (\<lambda>key. key \<in> set reserved_keywords)
         (map fst [(''BLOCK'', 64 :: nat), (''def_kernel'', 0)]) = Some ''def_kernel''
   \<and> render example_template [(''BLOCK'', 64), (''def_kernel'', 0)]
        (init ''k'' [\<lparr>attr_name = Some ''a'', get_name = Some ''a''\<rparr>] None)
      = (Inl (TypeError ''def_kernel''),
         (init ''k'' [\<lparr>attr_name = Some ''a'', get_name = Some ''a''\<rparr>] None))
   \<and> find (\<lambda>key. key \<in> set render_parameters)
         (map fst [(''def_kernel'', 0 :: nat), (''template'', 1)]) = Some ''template''
   \<and> render example_template [(''def_kernel'', 0), (''template'', 1)]
        (init ''k'' [\<lparr>attr_name = Some ''a'', get_name = Some ''a''\<rparr>] None)
      = (Inl (TypeError ''template''),
         (init ''k'' [\<lparr>attr_name = Some ''a'', get_name = Some ''a''\<rparr>] None))"
proof -
  have a: "find (\<lambda>key. key \<in> set render_parameters) (map fst [(''BLOCK'', 64 :: nat)]) = None"
    "find (\<lambda>key. key \<in> set reserved_keywords) (map fst [(''BLOCK'', 64 :: nat)]) = None"
    by (simp_all add: render_parameters_def reserved_keywords_def)
  have b: "find (\<lambda>key. key \<in> set render_parameters)
         (map fst [(''BLOCK'', 64 :: nat), (''def_kernel'', 0)]) = None"
    "find (\<lambda>key. key \<in> set reserved_keywords)
         (map fst [(''BLOCK'', 64 :: nat), (''def_kernel'', 0)]) = Some ''def_kernel''"
    by (simp_all add: render_parameters_def reserved_keywords_def)
  have t: "find (\<lambda>key. key \<in> set render_parameters)
         (map fst [(''def_kernel'', 0 :: nat), (''template'', 1)]) = Some ''template''"
    by (simp add: render_parameters_def)
  have c: "fst (example_template
        \<lparr> env_kernel_name = ''k'',
          env_input_nodes = [\<lparr>attr_name = Some ''a'', get_name = Some ''a''\<rparr>],
          env_output_node = None,
          env_store_output = store_output,
          env_def_kernel = def_kernel,
          env_kwargs = [(''BLOCK'', 64)] \<rparr>
        (init ''k'' [\<lparr>attr_name = Some ''a'', get_name = Some ''a''\<rparr>] None))
      = Inr ''<DEF_KERNEL>; k; <STORE_OUTPUT>''"
    by code_simp
  have v: "kernel_name (init ''k'' [\<lparr>attr_name = Some ''a'', get_name = Some ''a''\<rparr>] None) = ''k''"
    "input_nodes (init ''k'' [\<lparr>attr_name = Some ''a'', get_name = Some ''a''\<rparr>] None)
       = [\<lparr>attr_name = Some ''a'', get_name = Some ''a''\<rparr>]"
    "output_node (init ''k'' [\<lparr>attr_name = Some ''a'', get_name = Some ''a''\<rparr>] None) = None"
    by (simp_all add: init_def)
  from render_passes_through [of "[(''BLOCK'', 64 :: nat)]" example_template
      "(init ''k'' [\<lparr>attr_name = Some ''a'', get_name = Some ''a''\<rparr>] None)"]
    render_passes_through [of "[(''BLOCK'', 64 :: nat), (''def_kernel'', 0)]" example_template
      "(init ''k'' [\<lparr>attr_name = Some ''a'', get_name = Some ''a''\<rparr>] None)"]
    render_passes_through [of "[(''def_kernel'', 0 :: nat), (''template'', 1)]" example_template
      "(init ''k'' [\<lparr>attr_name = Some ''a'', get_name = Some ''a''\<rparr>] None)"]
    a b t c
  show ?thesis by (simp add: v)
qed

text \<open>
  The claim as stated holds for every binding. A binding named \<^verbatim>\<open>kernel_name\<close>, or
  one named \<^verbatim>\<open>template\<close>, makes \<open>render\<close> raise, although the service would have
  given a text for these bindings.
\<close>

theorem render_reserved_keyword_fails:
  "render (\<lambda>env k. (Inr ''text'', k)) [(''kernel_name'', 0 :: nat)] (init ''k'' [] None)
     = (Inl (TypeError ''kernel_name''), init ''k'' [] None)
   \<and> (\<lambda>env k. (Inr ''text'', k))
        \<lparr> env_kernel_name = kernel_name (init ''k'' [] None),
          env_input_nodes = input_nodes (init ''k'' [] None),
          env_output_node = output_node (init ''k'' [] None),
          env_store_output = store_output,
          env_def_kernel = def_kernel,
          env_kwargs = [(''kernel_name'', 0 :: nat)] \<rparr> (init ''k'' [] None)
     = (Inr ''text'', init ''k'' [] None)
   \<and> fst (render (\<lambda>env k. (Inr ''text'', k)) [(''kernel_name'', 0 :: nat)] (init ''k'' [] None))
     \<noteq> Inr ''text''
   \<and> render (\<lambda>env k. (Inr ''text'', k)) [(''template'', 0 :: nat)] (init ''k'' [] None)
     = (Inl (TypeError ''template''), init ''k'' [] None)
   \<and> fst (render (\<lambda>env k. (Inr ''text'', k)) [(''template'', 0 :: nat)] (init ''k'' [] None))
     \<noteq> Inr ''text''"
  by (simp add: render_def render_parameters_def reserved_keywords_def)

section \<open>The arguments of the emitted call\<close>

text \<open>
  Claim C6. \<^verbatim>\<open>call_kernel\<close> asks the wrapper for one call, with
  \<^verbatim>\<open>triton=False\<close>. When \<^verbatim>\<open>self.args\<close> is true, the call arguments and
  their types are what the argument-binding service gives. Otherwise there is one argument
  per input node, its buffer name or \<^verbatim>\<open>arg<i>\<close>, then one for the output node if
  there is one, its buffer name or \<^verbatim>\<open>out\<close>, and every type is
  \<^verbatim>\<open>"torch.Tensor"\<close>. With the truth value and the service modelled from the spec:
  for a kernel built with inputs named \<open>a\<close> and \<open>b\<close> (different names) and an output
  named \<open>c\<close>, after \<^verbatim>\<open>def_kernel(x, y)\<close> the call has the arguments
  \<open>[a, b, c]\<close> and three times the type Tensor; and the table of a newly built kernel is
  not populated, so that the fallback applies to it.
\<close>

theorem call_kernel_arguments:
  "(args_truthy (args k) \<longrightarrow>
      call_kernel args_truthy argdefs name k wrapper =
        wrapper @ [\<lparr> kc_name = name, kc_call_args = fst (argdefs (args k)), kc_triton = False,
                     kc_arg_types = snd (argdefs (args k)) \<rparr>])
   \<and> (\<not> args_truthy (args k) \<longrightarrow>
      call_kernel args_truthy argdefs name k wrapper =
        wrapper @ [\<lparr> kc_name = name,
                     kc_call_args =
                       map (\<lambda>(j, n). case get_name n of Some b \<Rightarrow> b | None \<Rightarrow> ''arg'' @ str_of_nat j)
                           (enumerate 0 (input_nodes k))
                       @ (case output_node k of
                            None \<Rightarrow> []
                          | Some n \<Rightarrow> [case get_name n of Some b \<Rightarrow> b | None \<Rightarrow> ''out'']),
                     kc_triton = False,
                     kc_arg_types =
                       replicate (length (input_nodes k)
                                  + (case output_node k of None \<Rightarrow> 0 | Some n \<Rightarrow> 1))
                                 ''torch.Tensor'' \<rparr>])
   \<and> (get_name na = Some a \<and> get_name nb = Some b \<and> get_name nc = Some c \<and> a \<noteq> b \<longrightarrow>
      call_kernel args_populated python_argdefs name
          (snd (def_kernel [x, y] (init kname [na, nb] (Some nc)))) wrapper =
        wrapper @ [\<lparr> kc_name = name, kc_call_args = [a, b, c], kc_triton = False,
                     kc_arg_types = [''torch.Tensor'', ''torch.Tensor'', ''torch.Tensor''] \<rparr>])
   \<and> \<not> args_populated (args (init kname nodes out))"
proof -
  have 1: "args_truthy (args k) \<longrightarrow>
      call_kernel args_truthy argdefs name k wrapper =
        wrapper @ [\<lparr> kc_name = name, kc_call_args = fst (argdefs (args k)), kc_triton = False,
                     kc_arg_types = snd (argdefs (args k)) \<rparr>]"
    by (simp add: call_kernel_def split: prod.splits)
  have 2: "\<not> args_truthy (args k) \<longrightarrow>
      call_kernel args_truthy argdefs name k wrapper =
        wrapper @ [\<lparr> kc_name = name,
                     kc_call_args =
                       map (\<lambda>(j, n). case get_name n of Some b \<Rightarrow> b | None \<Rightarrow> ''arg'' @ str_of_nat j)
                           (enumerate 0 (input_nodes k))
                       @ (case output_node k of
                            None \<Rightarrow> []
                          | Some n \<Rightarrow> [case get_name n of Some b \<Rightarrow> b | None \<Rightarrow> ''out'']),
                     kc_triton = False,
                     kc_arg_types =
                       replicate (length (input_nodes k)
                                  + (case output_node k of None \<Rightarrow> 0 | Some n \<Rightarrow> 1))
                                 ''torch.Tensor'' \<rparr>]"
    by (simp add: call_kernel_def fallback_eq)
  have 3: "get_name na = Some a \<and> get_name nb = Some b \<and> get_name nc = Some c \<and> a \<noteq> b \<longrightarrow>
      call_kernel args_populated python_argdefs name
          (snd (def_kernel [x, y] (init kname [na, nb] (Some nc)))) wrapper =
        wrapper @ [\<lparr> kc_name = name, kc_call_args = [a, b, c], kc_triton = False,
                     kc_arg_types = [''torch.Tensor'', ''torch.Tensor'', ''torch.Tensor''] \<rparr>]"
  proof (intro impI)
    assume h: "get_name na = Some a \<and> get_name nb = Some b \<and> get_name nc = Some c \<and> a \<noteq> b"
    define k0 where "k0 = init kname [na, nb] (Some nc)"
    have names: "map get_name (take (length [x, y]) (input_nodes k0)) = map Some [a, b]"
      using h by (simp add: k0_def init_def)
    have out: "map_option get_name (output_node k0) = map_option Some (Some c)"
      using h by (simp add: k0_def init_def)
    have region: "map_of (subgraph_bodies k0) ''<DEF_KERNEL>'' = None"
      by (simp add: k0_def init_def)
    have hook: "map_of (render_hooks k0) ''<DEF_KERNEL>'' = None"
      by (simp add: k0_def init_def)
    have a0: "args k0 = \<lparr> input_buffers = [], output_buffers = [] \<rparr>"
      by (simp add: k0_def init_def)
    have "args (snd (def_kernel [x, y] k0))
            = \<lparr> input_buffers = [(a, x), (b, y)], output_buffers = [(c, ''output'')] \<rparr>"
      using h by (simp add: def_kernel_ok [OF names out region hook] a0)
    then show "call_kernel args_populated python_argdefs name
          (snd (def_kernel [x, y] (init kname [na, nb] (Some nc)))) wrapper =
        wrapper @ [\<lparr> kc_name = name, kc_call_args = [a, b, c], kc_triton = False,
                     kc_arg_types = [''torch.Tensor'', ''torch.Tensor'', ''torch.Tensor''] \<rparr>]"
      by (simp add: k0_def [symmetric] call_kernel_def args_populated_def python_argdefs_def)
  qed
  have 4: "\<not> args_populated (args (init kname nodes out))"
    by (simp add: args_populated_def init_def)
  from 1 2 3 4 show ?thesis by blast
qed

theorem call_kernel_arguments_witness:
  "get_name \<lparr>attr_name = Some ''a'', get_name = Some ''a''\<rparr> = Some ''a''
   \<and> ''a'' \<noteq> ''b''
   \<and> call_kernel args_populated python_argdefs ''k''
        (snd (def_kernel [''x'', ''y'']
           (init ''k'' [\<lparr>attr_name = Some ''a'', get_name = Some ''a''\<rparr>,
                        \<lparr>attr_name = Some ''b'', get_name = Some ''b''\<rparr>]
                    (Some \<lparr>attr_name = Some ''c'', get_name = Some ''c''\<rparr>)))) []
       = [\<lparr> kc_name = ''k'', kc_call_args = [''a'', ''b'', ''c''], kc_triton = False,
             kc_arg_types = [''torch.Tensor'', ''torch.Tensor'', ''torch.Tensor''] \<rparr>]
   \<and> \<not> args_populated (args (init ''k'' [\<lparr>attr_name = None, get_name = None\<rparr>,
                                            \<lparr>attr_name = Some ''b'', get_name = Some ''b''\<rparr>]
                                        (Some \<lparr>attr_name = None, get_name = None\<rparr>)))
   \<and> call_kernel args_populated python_argdefs ''k''
        (init ''k'' [\<lparr>attr_name = None, get_name = None\<rparr>,
                     \<lparr>attr_name = Some ''b'', get_name = Some ''b''\<rparr>]
                 (Some \<lparr>attr_name = None, get_name = None\<rparr>)) []
       = [\<lparr> kc_name = ''k'', kc_call_args = [''arg0'', ''b'', ''out''], kc_triton = False,
             kc_arg_types = [''torch.Tensor'', ''torch.Tensor'', ''torch.Tensor''] \<rparr>]"
proof -
  have s: "str_of_nat 0 = ''0''" by code_simp
  have v: "input_nodes (init ''k'' [\<lparr>attr_name = None, get_name = None\<rparr>,
                     \<lparr>attr_name = Some ''b'', get_name = Some ''b''\<rparr>]
                 (Some \<lparr>attr_name = None, get_name = None\<rparr>))
            = [\<lparr>attr_name = None, get_name = None\<rparr>, \<lparr>attr_name = Some ''b'', get_name = Some ''b''\<rparr>]"
    "output_node (init ''k'' [\<lparr>attr_name = None, get_name = None\<rparr>,
                     \<lparr>attr_name = Some ''b'', get_name = Some ''b''\<rparr>]
                 (Some \<lparr>attr_name = None, get_name = None\<rparr>))
            = Some \<lparr>attr_name = None, get_name = None\<rparr>"
    by (simp_all add: init_def)
  from call_kernel_arguments [where args_truthy = args_populated and argdefs = python_argdefs
      and name = "''k''" and wrapper = "[]"
      and k = "init ''k'' [\<lparr>attr_name = None, get_name = None\<rparr>,
                     \<lparr>attr_name = Some ''b'', get_name = Some ''b''\<rparr>]
                 (Some \<lparr>attr_name = None, get_name = None\<rparr>)"
      and kname = "''k''" and nodes = "[\<lparr>attr_name = None, get_name = None\<rparr>,
                     \<lparr>attr_name = Some ''b'', get_name = Some ''b''\<rparr>]"
      and out = "Some \<lparr>attr_name = None, get_name = None\<rparr>"
      and na = "\<lparr>attr_name = Some ''a'', get_name = Some ''a''\<rparr>"
      and nb = "\<lparr>attr_name = Some ''b'', get_name = Some ''b''\<rparr>"
      and nc = "\<lparr>attr_name = Some ''c'', get_name = Some ''c''\<rparr>"
      and a = "''a''" and b = "''b''" and c = "''c''" and x = "''x''" and y = "''y''"]
  show ?thesis by (simp add: v s enumerate_simps)
qed

section \<open>When a hook gives the region's text\<close>

text \<open>
  For a region that exists and a token that has a hook: a hook called inside
  \<^verbatim>\<open>with self.set_subgraph_body(token)\<close> returns the trimmed text of the region's
  buffer.
\<close>

theorem hook_inside_region_returns_region_text:
  assumes sg: "map_of (subgraph_bodies k) token = Some sg"
    and h: "map_of (render_hooks k) token = Some h"
  shows "fst (set_subgraph_body token (\<lambda>k'. (Inr (resolve_hook token k'), k')) k)
           = Inr (region_text token k)"
proof -
  have e: "set_subgraph_body_enter token k = (current_fields k, set_fields sg k)"
    using sg by (simp add: set_subgraph_body_enter_def)
  have r: "resolve_hook token (set_fields sg k) = Some (strip (getvalue (heap k ! sg_body sg)))"
    using hook_reads_current_body [of "set_fields sg k" token h] h
    by (simp add: set_fields_def)
  show ?thesis
    by (simp add: set_subgraph_body_def e r region_text_def sg)
qed

theorem hook_inside_region_returns_region_text_witness:
  "map_of (subgraph_bodies (snd (def_kernel [] (init ''k'' [] None)))) ''<DEF_KERNEL>''
     = Some \<lparr> sg_body = 1, sg_template_mask = None, sg_template_out = None \<rparr>
   \<and> map_of (render_hooks (snd (def_kernel [] (init ''k'' [] None)))) ''<DEF_KERNEL>''
     = Some DefKernelHook
   \<and> fst (set_subgraph_body ''<DEF_KERNEL>'' (\<lambda>k'. (Inr (resolve_hook ''<DEF_KERNEL>'' k'), k'))
        (snd (def_kernel [] (init ''k'' [] None))))
     = Inr (Some ''# CuteDSL kernel function: k\<newline>def k():'')"
proof -
  have a: "map_of (subgraph_bodies (snd (def_kernel [] (init ''k'' [] None)))) ''<DEF_KERNEL>''
     = Some \<lparr> sg_body = 1, sg_template_mask = None, sg_template_out = None \<rparr>"
    by code_simp
  have b: "map_of (render_hooks (snd (def_kernel [] (init ''k'' [] None)))) ''<DEF_KERNEL>''
     = Some DefKernelHook"
    by code_simp
  have c: "region_text ''<DEF_KERNEL>'' (snd (def_kernel [] (init ''k'' [] None)))
     = Some ''# CuteDSL kernel function: k\<newline>def k():''"
    by code_simp
  from hook_inside_region_returns_region_text [OF a b] a b show ?thesis
    by (simp only: c simp_thms)
qed

text \<open>
  A hook called right after its operation has returned gives the trimmed text of the buffer
  that \<open>body\<close> referred to before the operation was called: the result does not depend on
  what the operation wrote into its region. The hypothesis says that \<open>body\<close> refers to an
  existing buffer.
\<close>

theorem hook_after_return_reads_outer_body:
  assumes valid: "body k < length (heap k)"
  shows "(map_of (subgraph_bodies k) ''<STORE_OUTPUT>'' = None \<and>
          map_of (render_hooks k) ''<STORE_OUTPUT>'' = None \<longrightarrow>
            resolve_hook ''<STORE_OUTPUT>'' (snd (store_output indices val msk w k))
              = Some (strip (getvalue (heap k ! body k))))
       \<and> (map get_name (take (length argnames) (input_nodes k)) = map Some bs \<and>
          map_option get_name (output_node k) = map_option Some ob \<and>
          map_of (subgraph_bodies k) ''<DEF_KERNEL>'' = None \<and>
          map_of (render_hooks k) ''<DEF_KERNEL>'' = None \<longrightarrow>
            resolve_hook ''<DEF_KERNEL>'' (snd (def_kernel argnames k))
              = Some (strip (getvalue (heap k ! body k))))"
proof (intro conjI impI)
  assume a: "map_of (subgraph_bodies k) ''<STORE_OUTPUT>'' = None \<and>
          map_of (render_hooks k) ''<STORE_OUTPUT>'' = None"
  define k' where "k' = snd (store_output indices val msk w k)"
  have "map_of (render_hooks k') ''<STORE_OUTPUT>'' = Some StoreOutputHook"
    and "body k' = body k" and "\<exists>xs. heap k' = heap k @ xs"
    using a by (simp_all add: k'_def store_output_new Let_def map_of_dict_set)
  with valid show "resolve_hook ''<STORE_OUTPUT>'' (snd (store_output indices val msk w k))
              = Some (strip (getvalue (heap k ! body k)))"
    unfolding k'_def [symmetric]
    by (auto simp: hook_reads_current_body nth_append)
next
  assume a: "map get_name (take (length argnames) (input_nodes k)) = map Some bs \<and>
          map_option get_name (output_node k) = map_option Some ob \<and>
          map_of (subgraph_bodies k) ''<DEF_KERNEL>'' = None \<and>
          map_of (render_hooks k) ''<DEF_KERNEL>'' = None"
  then have ok: "def_kernel argnames k =
    (Inr ''<DEF_KERNEL>'',
     k\<lparr> named_input_nodes := name_nodes (zip argnames (input_nodes k)) (named_input_nodes k),
        args := \<lparr> input_buffers = bind_names (zip argnames bs) (input_buffers (args k)),
                  output_buffers = (case ob of
                                      None \<Rightarrow> output_buffers (args k)
                                    | Some b \<Rightarrow> dict_set b ''output'' (output_buffers (args k))) \<rparr>,
        heap := heap k @
          [if argnames \<noteq> []
           then [''# CuteDSL kernel function: '' @ kernel_name k,
                 ''# Arguments: '' @ join '', '' argnames,
                 ''def '' @ kernel_name k @ ''('' @ join '', '' argnames @ ''):'']
           else [''# CuteDSL kernel function: '' @ kernel_name k,
                 ''def '' @ kernel_name k @ ''():'']],
        subgraph_bodies := dict_set ''<DEF_KERNEL>''
            \<lparr> sg_body = length (heap k), sg_template_mask = None, sg_template_out = None \<rparr>
            (subgraph_bodies k),
        render_hooks := dict_set ''<DEF_KERNEL>'' DefKernelHook (render_hooks k) \<rparr>)"
    by (intro def_kernel_ok) simp_all
  define k' where "k' = snd (def_kernel argnames k)"
  have "map_of (render_hooks k') ''<DEF_KERNEL>'' = Some DefKernelHook"
    and "body k' = body k" and "\<exists>xs. heap k' = heap k @ xs"
    by (simp_all add: k'_def ok map_of_dict_set)
  with valid show "resolve_hook ''<DEF_KERNEL>'' (snd (def_kernel argnames k))
              = Some (strip (getvalue (heap k ! body k)))"
    unfolding k'_def [symmetric]
    by (auto simp: hook_reads_current_body nth_append)
qed

theorem hook_after_return_reads_outer_body_witness:
  "body (init ''k'' [] None) < length (heap (init ''k'' [] None))
   \<and> map_of (subgraph_bodies (init ''k'' [] None)) ''<STORE_OUTPUT>'' = None
   \<and> map_of (render_hooks (init ''k'' [] None)) ''<STORE_OUTPUT>'' = None
   \<and> resolve_hook ''<STORE_OUTPUT>''
        (snd (store_output (Some [''i'', ''j'']) ''v'' (Some ''m'') 4 (init ''k'' [] None)))
       = Some (strip (getvalue (heap (init ''k'' [] None) ! body (init ''k'' [] None))))
   \<and> strip (getvalue (heap (init ''k'' [] None) ! body (init ''k'' [] None))) = []"
proof -
  have valid: "body (init ''k'' [] None) < length (heap (init ''k'' [] None))"
    by (simp add: init_def)
  have a: "map_of (subgraph_bodies (init ''k'' [] None)) ''<STORE_OUTPUT>'' = None"
    "map_of (render_hooks (init ''k'' [] None)) ''<STORE_OUTPUT>'' = None"
    by (simp_all add: init_def)
  have e: "strip (getvalue (heap (init ''k'' [] None) ! body (init ''k'' [] None))) = []"
    by code_simp
  from hook_after_return_reads_outer_body [OF valid, where indices = "Some [''i'', ''j'']"
      and val = "''v''" and msk = "Some ''m''" and w = 4] valid a e
  show ?thesis by blast
qed

end
